theory Spec2Isabelle
  imports Main
begin

section \<open>Job model (cloud/internal/job/model.go, errors.go)\<close>

text \<open>
  Go declares \<^verbatim>\<open>type Status string\<close> with seven named constants, so a status is a
  string and values outside the seven constants exist; \<^verbatim>\<open>IsValid\<close> tells them apart.
\<close>

type_synonym Status = string

definition StatusPending :: Status where "StatusPending = ''PENDING''"
definition StatusAssigned :: Status where "StatusAssigned = ''ASSIGNED''"
definition StatusRunning :: Status where "StatusRunning = ''RUNNING''"
definition StatusSucceeded :: Status where "StatusSucceeded = ''SUCCEEDED''"
definition StatusFailed :: Status where "StatusFailed = ''FAILED''"
definition StatusCanceled :: Status where "StatusCanceled = ''CANCELED''"
definition StatusLost :: Status where "StatusLost = ''LOST''"

definition IsValid :: "Status \<Rightarrow> bool" where
  "IsValid s =
     (s = StatusPending \<or> s = StatusAssigned \<or> s = StatusRunning \<or> s = StatusSucceeded \<or>
      s = StatusFailed \<or> s = StatusCanceled \<or> s = StatusLost)"

definition CanTransitionTo :: "Status \<Rightarrow> Status \<Rightarrow> bool" where
  "CanTransitionTo s target =
     (if s = StatusPending then target = StatusAssigned \<or> target = StatusCanceled
      else if s = StatusAssigned then
        target = StatusRunning \<or> target = StatusCanceled \<or> target = StatusLost
      else if s = StatusRunning then
        target = StatusSucceeded \<or> target = StatusFailed \<or> target = StatusCanceled \<or>
        target = StatusLost
      else if s = StatusSucceeded \<or> s = StatusFailed \<or> s = StatusCanceled \<or> s = StatusLost
      then False
      else False)"

definition IsTerminal :: "Status \<Rightarrow> bool" where
  "IsTerminal s =
     (s = StatusSucceeded \<or> s = StatusFailed \<or> s = StatusCanceled \<or> s = StatusLost)"

text \<open>
  The transition table as the specification lists it (source \<rightarrow> destinations), kept apart
  from \<^const>\<open>CanTransitionTo\<close> so that the two can be compared.
\<close>

definition spec_transition_table :: "(Status \<times> Status) list" where
  "spec_transition_table =
     [(StatusPending, StatusAssigned), (StatusPending, StatusCanceled),
      (StatusAssigned, StatusRunning), (StatusAssigned, StatusCanceled),
      (StatusAssigned, StatusLost),
      (StatusRunning, StatusSucceeded), (StatusRunning, StatusFailed),
      (StatusRunning, StatusCanceled), (StatusRunning, StatusLost)]"

text \<open>
  Times are nanoseconds on one clock (Go's \<^verbatim>\<open>time.Time\<close> and \<^verbatim>\<open>time.Duration\<close>);
  \<^verbatim>\<open>int\<close> fields are unbounded integers here, the values involved stay far from 64 bits.
  \<^verbatim>\<open>Message\<close> is the column that store.go persists next to stdout and stderr.
\<close>

record Job =
  JobID :: string
  CreatedAt :: int
  Status :: Status
  InputBucket :: string
  InputKey :: string
  OutputBucket :: string
  OutputKey :: string
  OutputPrefix :: string
  OutputExtension :: string
  AttemptID :: int
  AssignedAgentID :: string
  LeaseID :: string
  LeaseDeadline :: "int option"
  Command :: string
  Message :: string
  Stdout :: string
  Stderr :: string

datatype error =
    ErrInvalidJobID
  | ErrInvalidStatus
  | ErrInvalidInput
  | ErrInvalidAttemptID
  | ErrInvalidTransition
  | ErrJobNotFound
  | ErrBackend
  | ErrQueueEmpty
  | ErrSigner

definition Validate :: "Job \<Rightarrow> error option" where
  "Validate j =
     (if JobID j = [] then Some ErrInvalidJobID
      else if \<not> IsValid (Status j) then Some ErrInvalidStatus
      else if (InputBucket j = [] \<and> InputKey j \<noteq> []) \<or> (InputBucket j \<noteq> [] \<and> InputKey j = [])
      then Some ErrInvalidInput
      else if AttemptID j < 1 then Some ErrInvalidAttemptID
      else None)"

definition startsWith :: "string \<Rightarrow> string \<Rightarrow> bool" where
  "startsWith s prefix = (length s \<ge> length prefix \<and> take (length prefix) s = prefix)"

text \<open>\<^verbatim>\<open>strconv.Itoa\<close>: the decimal digits of an integer, with a minus sign when negative.\<close>

fun natToString :: "nat \<Rightarrow> string" where
  "natToString n =
     (if n < 10 then [''0123456789'' ! n]
      else natToString (n div 10) @ [''0123456789'' ! (n mod 10)])"

definition intToString :: "int \<Rightarrow> string" where
  "intToString n = (if n < 0 then CHR ''-'' # natToString (nat (- n)) else natToString (nat n))"

definition generateDefaultOutputPrefix :: "Job \<Rightarrow> string" where
  "generateDefaultOutputPrefix j =
     ''jobs/'' @ JobID j @ ''/'' @ intToString (AttemptID j) @ ''/''"

definition EnsureOutputPrefix :: "Job \<Rightarrow> Job" where
  "EnsureOutputPrefix j =
     (let expectedPrefix = generateDefaultOutputPrefix j in
      if OutputPrefix j = [] \<and> OutputKey j = [] then j\<lparr>OutputPrefix := expectedPrefix\<rparr>
      else if OutputPrefix j \<noteq> [] then
        (if OutputPrefix j \<noteq> expectedPrefix \<and> \<not> startsWith (OutputPrefix j) expectedPrefix
         then j\<lparr>OutputPrefix := expectedPrefix\<rparr>
         else j)
      else if OutputKey j \<noteq> [] then
        (if startsWith (OutputKey j) expectedPrefix
         then j\<lparr>OutputPrefix := expectedPrefix, OutputKey := []\<rparr>
         else j\<lparr>OutputPrefix := expectedPrefix, OutputKey := []\<rparr>)
      else j)"

section \<open>Job store (cloud/internal/job/store.go, SQLiteStore)\<close>

text \<open>
  The jobs table is a map from the primary key \<^verbatim>\<open>job_id\<close> to the row. Every call of
  \<^verbatim>\<open>db.QueryRow\<close> or \<^verbatim>\<open>db.Exec\<close> can fail in the database; the outcome of each
  such call is an explicit boolean argument (\<open>True\<close>: the statement was executed).
  An \<^verbatim>\<open>UPDATE ... WHERE job_id = ?\<close> that matches no row succeeds and changes nothing.
  Rows are as \<^verbatim>\<open>Create\<close> writes them, with no NULL column, so \<^verbatim>\<open>Get\<close> returns
  the row as stored.
\<close>

type_synonym jobs_table = "string \<rightharpoonup> Job"

definition sql_update :: "jobs_table \<Rightarrow> string \<Rightarrow> (Job \<Rightarrow> Job) \<Rightarrow> jobs_table" where
  "sql_update tbl jobID f = (case tbl jobID of None \<Rightarrow> tbl | Some row \<Rightarrow> tbl(jobID \<mapsto> f row))"

definition Create :: "bool \<Rightarrow> jobs_table \<Rightarrow> Job \<Rightarrow> error option \<times> jobs_table" where
  "Create exec_ok tbl job =
     (case Validate job of
        Some err \<Rightarrow> (Some err, tbl)
      | None \<Rightarrow>
          (let job' = EnsureOutputPrefix job in
           if \<not> exec_ok \<or> tbl (JobID job') \<noteq> None then (Some ErrBackend, tbl)
           else (None, tbl(JobID job' \<mapsto> job'))))"

definition Get :: "bool \<Rightarrow> jobs_table \<Rightarrow> string \<Rightarrow> error + Job" where
  "Get query_ok tbl jobID =
     (if \<not> query_ok then Inl ErrBackend
      else case tbl jobID of
          None \<Rightarrow> Inl ErrJobNotFound
        | Some job \<Rightarrow> if \<not> IsValid (Status job) then Inl ErrBackend else Inr job)"

definition UpdateStatus ::
  "bool \<Rightarrow> bool \<Rightarrow> jobs_table \<Rightarrow> string \<Rightarrow> Status \<Rightarrow> error option \<times> jobs_table" where
  "UpdateStatus query_ok exec_ok tbl jobID newStatus =
     (if \<not> IsValid newStatus then (Some ErrInvalidStatus, tbl)
      else case Get query_ok tbl jobID of
          Inl err \<Rightarrow> (Some err, tbl)
        | Inr job \<Rightarrow>
            if \<not> CanTransitionTo (Status job) newStatus then (Some ErrInvalidTransition, tbl)
            else if \<not> exec_ok then (Some ErrBackend, tbl)
            else (None, sql_update tbl jobID (\<lambda>row. row\<lparr>Status := newStatus\<rparr>)))"

definition UpdateAssignment ::
  "bool \<Rightarrow> jobs_table \<Rightarrow> string \<Rightarrow> string \<Rightarrow> string \<Rightarrow> int option \<Rightarrow> error option \<times> jobs_table"
  where
  "UpdateAssignment exec_ok tbl jobID agentID leaseID leaseDeadline =
     (if \<not> exec_ok then (Some ErrBackend, tbl)
      else (None, sql_update tbl jobID
              (\<lambda>row. row\<lparr>AssignedAgentID := agentID, LeaseID := leaseID,
                          LeaseDeadline := leaseDeadline\<rparr>)))"

definition UpdateAttemptID ::
  "bool \<Rightarrow> jobs_table \<Rightarrow> string \<Rightarrow> int \<Rightarrow> error option \<times> jobs_table" where
  "UpdateAttemptID exec_ok tbl jobID attemptID =
     (if attemptID < 1 then (Some ErrInvalidAttemptID, tbl)
      else if \<not> exec_ok then (Some ErrBackend, tbl)
      else (None, sql_update tbl jobID (\<lambda>row. row\<lparr>AttemptID := attemptID\<rparr>)))"

definition UpdateOutput ::
  "bool \<Rightarrow> jobs_table \<Rightarrow> string \<Rightarrow> string \<Rightarrow> string \<Rightarrow> error option \<times> jobs_table" where
  "UpdateOutput exec_ok tbl jobID outputKey outputPrefix =
     (if \<not> exec_ok then (Some ErrBackend, tbl)
      else (None, sql_update tbl jobID
              (\<lambda>row. row\<lparr>OutputKey := outputKey, OutputPrefix := outputPrefix\<rparr>)))"

definition UpdateStdoutStderr ::
  "bool \<Rightarrow> jobs_table \<Rightarrow> string \<Rightarrow> string \<Rightarrow> string \<Rightarrow> error option \<times> jobs_table" where
  "UpdateStdoutStderr exec_ok tbl jobID stdout stderr =
     (if \<not> exec_ok then (Some ErrBackend, tbl)
      else (None, sql_update tbl jobID (\<lambda>row. row\<lparr>Stdout := stdout, Stderr := stderr\<rparr>)))"

section \<open>Agent registry (cloud/internal/registry/registry.go)\<close>

record AgentInfo =
  AgentID :: string
  Hostname :: string
  MaxConcurrency :: int
  Paused :: bool
  RunningJobs :: int
  LastHeartbeat :: int
  ConnectedAt :: int

type_synonym agents = "string \<rightharpoonup> AgentInfo"

definition second :: int where "second = 1000000000"
definition millisecond :: int where "millisecond = 1000000"

text \<open>The first argument of the registry operations is the reading of \<^verbatim>\<open>time.Now()\<close>.\<close>

definition Register :: "int \<Rightarrow> agents \<Rightarrow> string \<Rightarrow> string \<Rightarrow> int \<Rightarrow> agents" where
  "Register now reg agentID hostname maxConcurrency =
     (case reg agentID of
        Some agent \<Rightarrow>
          reg(agentID \<mapsto> agent\<lparr>Hostname := hostname, MaxConcurrency := maxConcurrency,
                                  LastHeartbeat := now\<rparr>)
      | None \<Rightarrow>
          reg(agentID \<mapsto> \<lparr>AgentID = agentID, Hostname = hostname,
                            MaxConcurrency = maxConcurrency, Paused = False, RunningJobs = 0,
                            LastHeartbeat = now, ConnectedAt = now\<rparr>))"

definition UpdateHeartbeat :: "int \<Rightarrow> agents \<Rightarrow> string \<Rightarrow> bool \<Rightarrow> int \<Rightarrow> agents" where
  "UpdateHeartbeat now reg agentID paused runningJobs =
     (case reg agentID of
        Some agent \<Rightarrow>
          reg(agentID \<mapsto> agent\<lparr>LastHeartbeat := now, Paused := paused,
                                  RunningJobs := runningJobs\<rparr>)
      | None \<Rightarrow> reg)"

definition GetAgent :: "int \<Rightarrow> agents \<Rightarrow> string \<Rightarrow> AgentInfo option" where
  "GetAgent now reg agentID =
     (case reg agentID of
        None \<Rightarrow> None
      | Some agent \<Rightarrow> if now - LastHeartbeat agent \<ge> 60 * second then None else Some agent)"

section \<open>Pending queue (cloud/internal/queue/queue.go)\<close>

text \<open>
  The Redis list as a list of job ids, next id to leave first (LPUSH at one end, RPOP at
  the other); the JSON quoting of an id is undone on the way out and is left implicit. The
  boolean is the outcome of the Redis command.
\<close>

definition Enqueue :: "bool \<Rightarrow> string list \<Rightarrow> string \<Rightarrow> error option \<times> string list" where
  "Enqueue redis_ok q jobID =
     (if jobID = [] then (Some ErrBackend, q)
      else if \<not> redis_ok then (Some ErrBackend, q)
      else (None, q @ [jobID]))"

definition Dequeue :: "bool \<Rightarrow> string list \<Rightarrow> (error + string) \<times> string list" where
  "Dequeue redis_ok q =
     (if \<not> redis_ok then (Inl ErrBackend, q)
      else case q of [] \<Rightarrow> (Inl ErrQueueEmpty, q) | jobID # rest \<Rightarrow> (Inr jobID, rest))"

section \<open>Control messages (docs/PROTOCOL_REFERENCE.md)\<close>

text \<open>
  \<^verbatim>\<open>JobStatusEnum\<close> is a protobuf enum, that is a 32-bit integer on the wire; a tag
  that this build does not know arrives as its number.
\<close>

type_synonym JobStatusEnum = int

definition JOB_STATUS_UNKNOWN :: JobStatusEnum where "JOB_STATUS_UNKNOWN = 0"
definition JOB_STATUS_ASSIGNED :: JobStatusEnum where "JOB_STATUS_ASSIGNED = 1"
definition JOB_STATUS_RUNNING :: JobStatusEnum where "JOB_STATUS_RUNNING = 2"
definition JOB_STATUS_SUCCEEDED :: JobStatusEnum where "JOB_STATUS_SUCCEEDED = 3"
definition JOB_STATUS_FAILED :: JobStatusEnum where "JOB_STATUS_FAILED = 4"
definition JOB_STATUS_CANCELED :: JobStatusEnum where "JOB_STATUS_CANCELED = 5"
definition JOB_STATUS_LOST :: JobStatusEnum where "JOB_STATUS_LOST = 6"

record RequestJob =
  agent_id :: string

record JobStatus =
  job_id :: string
  attempt_id :: int
  status :: JobStatusEnum
  message :: string
  output_key :: string
  stdout :: string
  stderr :: string

record JobAssigned =
  job_id :: string
  attempt_id :: int
  lease_id :: string
  lease_ttl_sec :: int
  input_download :: string
  input_key :: string
  output_upload :: string
  output_prefix :: string
  output_key :: string
  command :: string

datatype Payload =
    Envelope_RequestJob RequestJob
  | Envelope_JobStatus JobStatus
  | Envelope_JobAssigned JobAssigned

record Envelope =
  AgentId :: string
  RequestId :: string
  Timestamp :: int
  Payload :: Payload

section \<open>Gateway (cloud/internal/gateway/gateway.go)\<close>

text \<open>
  \<^verbatim>\<open>SendChan\<close> holds the frames handed to the writer, oldest first. The signer
  (\<^verbatim>\<open>oss.Provider\<close>) is an interface: a record of its two methods used here.
\<close>

record AgentConnection =
  AgentID :: string
  SendChan :: "Envelope list"

record Provider =
  GenerateDownloadURL :: "string \<Rightarrow> error + string"
  GenerateUploadURL :: "string \<Rightarrow> error + string"

record Gateway =
  registry :: agents
  jobStore :: jobs_table
  jobQueue :: "string list option"
  ossProvider :: Provider

definition jobStatusFromProto :: "JobStatusEnum \<Rightarrow> Status" where
  "jobStatusFromProto st =
     (if st = JOB_STATUS_ASSIGNED then StatusAssigned
      else if st = JOB_STATUS_RUNNING then StatusRunning
      else if st = JOB_STATUS_SUCCEEDED then StatusSucceeded
      else if st = JOB_STATUS_FAILED then StatusFailed
      else if st = JOB_STATUS_CANCELED then StatusCanceled
      else if st = JOB_STATUS_LOST then StatusLost
      else StatusPending)"

text \<open>\<^verbatim>\<open>strings.HasPrefix\<close>.\<close>

definition HasPrefix :: "string \<Rightarrow> string \<Rightarrow> bool" where
  "HasPrefix s prefix = (length s \<ge> length prefix \<and> take (length prefix) s = prefix)"

text \<open>\<^verbatim>\<open>int32(n)\<close>: the conversion keeps the low 32 bits, read as a signed number.\<close>

definition int32 :: "int \<Rightarrow> int" where
  "int32 n = (n + 2147483648) mod 4294967296 - 2147483648"

text \<open>
  What the world answers during one run of \<^verbatim>\<open>handleRequestJob\<close>: the clock, the
  fresh lease id, whether \<^verbatim>\<open>proto.Marshal\<close> succeeds, and the outcome of every call
  to Redis and to the database, named after its place in the handler (the calls in the
  loop by the iteration they belong to).
\<close>

record RequestJobCalls =
  rj_now :: int
  rj_lease_id :: string
  rj_dequeue_ok :: "nat \<Rightarrow> bool"
  rj_get_ok :: "nat \<Rightarrow> bool"
  rj_attempt_ok :: bool
  rj_assign_ok :: bool
  rj_status_query_ok :: bool
  rj_status_exec_ok :: bool
  rj_output_ok :: bool
  rj_marshal_ok :: bool
  rj_revert_status_query_ok :: bool
  rj_revert_status_exec_ok :: bool
  rj_revert_assign_ok :: bool
  rj_enqueue_ok :: bool

definition maxDequeueAttempts :: nat where "maxDequeueAttempts = 5"

text \<open>
  The loop \<^verbatim>\<open>for attempt := 0; attempt < maxDequeueAttempts; attempt++\<close> of
  \<^verbatim>\<open>handleRequestJob\<close>, over the loop variable and the variables \<^verbatim>\<open>jobID\<close> and
  \<^verbatim>\<open>j\<close> it assigns. \<open>Returned\<close>: the handler returned from inside the loop;
  \<open>LoopDone\<close>: the loop was left by \<^verbatim>\<open>break\<close> or by its condition.
\<close>

datatype LoopExit =
    Returned "string list"
  | LoopDone "string list" string "Job option"

function dequeueLoop ::
  "RequestJobCalls \<Rightarrow> jobs_table \<Rightarrow> nat \<Rightarrow> string list \<Rightarrow> string \<Rightarrow> Job option \<Rightarrow> LoopExit"
  where
  "dequeueLoop c tbl attempt q jobID j =
     (if attempt < maxDequeueAttempts then
        (case Dequeue (rj_dequeue_ok c attempt) q of
           (Inl err, q') \<Rightarrow> Returned q'
         | (Inr jobID', q') \<Rightarrow>
             (case Get (rj_get_ok c attempt) tbl jobID' of
                Inl err \<Rightarrow> dequeueLoop c tbl (attempt + 1) q' jobID' None
              | Inr j' \<Rightarrow>
                  if Status j' \<noteq> StatusPending
                  then dequeueLoop c tbl (attempt + 1) q' jobID' (Some j')
                  else LoopDone q' jobID' (Some j')))
      else LoopDone q jobID j)"
  by pat_completeness auto
termination
  by (relation "measure (\<lambda>(c, tbl, attempt, q, jobID, j). maxDequeueAttempts - attempt)") auto

text \<open>
  Two readings of a loop iteration, for stating what the loop does: whether the id pulled
  in iteration \<open>attempt\<close> is found in the store with status PENDING, and the value the
  variable \<^verbatim>\<open>j\<close> holds after the \<^verbatim>\<open>Get\<close> of that iteration.
\<close>

definition foundPending :: "RequestJobCalls \<Rightarrow> jobs_table \<Rightarrow> nat \<Rightarrow> string \<Rightarrow> bool" where
  "foundPending c tbl attempt jobID =
     (case Get (rj_get_ok c attempt) tbl jobID of
        Inl err \<Rightarrow> False
      | Inr j \<Rightarrow> Status j = StatusPending)"

definition lookedUp :: "RequestJobCalls \<Rightarrow> jobs_table \<Rightarrow> nat \<Rightarrow> string \<Rightarrow> Job option" where
  "lookedUp c tbl attempt jobID =
     (case Get (rj_get_ok c attempt) tbl jobID of Inl err \<Rightarrow> None | Inr j \<Rightarrow> Some j)"

text \<open>
  The compensating calls, which the handler writes out at every failure: re-enqueue the
  id, and (after a failed output write or a failed marshal) set the status back and clear
  the assignment. Their errors are dropped (\<^verbatim>\<open>_ = ...\<close>); the state goes on from
  whatever each call left.
\<close>

definition reEnqueue :: "RequestJobCalls \<Rightarrow> string list \<Rightarrow> string \<Rightarrow> string list" where
  "reEnqueue c q jobID = snd (Enqueue (rj_enqueue_ok c) q jobID)"

definition revertToPending :: "RequestJobCalls \<Rightarrow> jobs_table \<Rightarrow> string \<Rightarrow> jobs_table" where
  "revertToPending c tbl jobID =
     (let tbl1 = snd (UpdateStatus (rj_revert_status_query_ok c) (rj_revert_status_exec_ok c)
                        tbl jobID StatusPending);
          tbl2 = snd (UpdateAssignment (rj_revert_assign_ok c) tbl1 jobID [] [] None)
      in tbl2)"

definition handleRequestJob ::
  "RequestJobCalls \<Rightarrow> Gateway \<Rightarrow> AgentConnection \<Rightarrow> Envelope \<Rightarrow> RequestJob
     \<Rightarrow> Gateway \<times> AgentConnection" where
  "handleRequestJob c g agentConn envelope req =
     (if agent_id req \<noteq> [] \<and> agent_id req \<noteq> AgentId envelope then (g, agentConn)
      else let agentID = AgentId envelope in
      if agentID = [] then (g, agentConn)
      else case GetAgent (rj_now c) (registry g) agentID of
        None \<Rightarrow> (g, agentConn)
      | Some agentInfo \<Rightarrow>
      if Paused agentInfo then (g, agentConn)
      else if RunningJobs agentInfo \<ge> MaxConcurrency agentInfo then (g, agentConn)
      else case jobQueue g of
        None \<Rightarrow> (g, agentConn)
      | Some q0 \<Rightarrow>
      (case dequeueLoop c (jobStore g) 0 q0 [] None of
        Returned q1 \<Rightarrow> (g\<lparr>jobQueue := Some q1\<rparr>, agentConn)
      | LoopDone q1 jobID None \<Rightarrow> (g\<lparr>jobQueue := Some q1\<rparr>, agentConn)
      | LoopDone q1 jobID (Some j) \<Rightarrow>
      if Status j \<noteq> StatusPending then (g\<lparr>jobQueue := Some q1\<rparr>, agentConn)
      else case (if AttemptID j < 1 then UpdateAttemptID (rj_attempt_ok c) (jobStore g) jobID 1
                 else (None, jobStore g)) of
        (Some err, tbl1) \<Rightarrow>
          (g\<lparr>jobStore := tbl1, jobQueue := Some (reEnqueue c q1 jobID)\<rparr>, agentConn)
      | (None, tbl1) \<Rightarrow>
      let attemptID = (if AttemptID j < 1 then 1 else if AttemptID j > 1 then AttemptID j else 1);
          outputPrefix = ''jobs/'' @ jobID @ ''/'' @ intToString attemptID @ ''/'';
          outputExtension = (if OutputExtension j = [] then ''bin'' else OutputExtension j);
          outputExtension = (if HasPrefix outputExtension ''.'' then drop 1 outputExtension
                             else outputExtension);
          outputKey = outputPrefix @ ''output.'' @ outputExtension
      in case GenerateDownloadURL (ossProvider g) (InputKey j) of
        Inl err \<Rightarrow>
          (g\<lparr>jobStore := tbl1, jobQueue := Some (reEnqueue c q1 jobID)\<rparr>, agentConn)
      | Inr inputDownloadURL \<Rightarrow>
      case GenerateUploadURL (ossProvider g) outputKey of
        Inl err \<Rightarrow>
          (g\<lparr>jobStore := tbl1, jobQueue := Some (reEnqueue c q1 jobID)\<rparr>, agentConn)
      | Inr outputUploadURL \<Rightarrow>
      let leaseID = rj_lease_id c; leaseTTLSec = 60 in
      case UpdateAssignment (rj_assign_ok c) tbl1 jobID agentID leaseID None of
        (Some err, tbl2) \<Rightarrow>
          (g\<lparr>jobStore := tbl2, jobQueue := Some (reEnqueue c q1 jobID)\<rparr>, agentConn)
      | (None, tbl2) \<Rightarrow>
      case UpdateStatus (rj_status_query_ok c) (rj_status_exec_ok c) tbl2 jobID StatusAssigned of
        (Some err, tbl3) \<Rightarrow>
          (g\<lparr>jobStore := snd (UpdateAssignment (rj_revert_assign_ok c) tbl3 jobID [] [] None),
             jobQueue := Some (reEnqueue c q1 jobID)\<rparr>, agentConn)
      | (None, tbl3) \<Rightarrow>
      case UpdateOutput (rj_output_ok c) tbl3 jobID outputKey outputPrefix of
        (Some err, tbl4) \<Rightarrow>
          (g\<lparr>jobStore := revertToPending c tbl4 jobID,
             jobQueue := Some (reEnqueue c q1 jobID)\<rparr>, agentConn)
      | (None, tbl4) \<Rightarrow>
      let jobAssigned =
            \<lparr>AgentId = [], RequestId = RequestId envelope,
             Timestamp = rj_now c div millisecond,
             Payload = Envelope_JobAssigned
               \<lparr>job_id = jobID, attempt_id = int32 attemptID, lease_id = leaseID,
                lease_ttl_sec = leaseTTLSec, input_download = inputDownloadURL,
                input_key = InputKey j, output_upload = outputUploadURL,
                output_prefix = outputPrefix, output_key = outputKey, command = Command j\<rparr>\<rparr>
      in if \<not> rj_marshal_ok c then
          (g\<lparr>jobStore := revertToPending c tbl4 jobID,
             jobQueue := Some (reEnqueue c q1 jobID)\<rparr>, agentConn)
      else
        (g\<lparr>registry := UpdateHeartbeat (rj_now c) (registry g) agentID (Paused agentInfo)
                          (RunningJobs agentInfo + 1),
           jobStore := tbl4, jobQueue := Some q1\<rparr>,
         agentConn\<lparr>SendChan := SendChan agentConn @ [jobAssigned]\<rparr>)))"

text \<open>
  What the world answers during one run of \<^verbatim>\<open>handleJobStatus\<close>: the clock and the
  outcome of each database call (the read at the top, the stdout/stderr write, and the
  read and the write inside \<^verbatim>\<open>UpdateStatus\<close>; every path makes each call at most once).
\<close>

record JobStatusCalls =
  js_now :: int
  js_get_ok :: bool
  js_stdout_ok :: bool
  js_status_query_ok :: bool
  js_status_exec_ok :: bool

text \<open>
  The block that follows every write of a terminal status in \<^verbatim>\<open>handleJobStatus\<close>
  (``Decrement RunningJobs on terminal state''): nothing happens when the registry does not
  report the agent or its count is not positive.
\<close>

definition decrementRunningJobs :: "int \<Rightarrow> agents \<Rightarrow> string \<Rightarrow> agents" where
  "decrementRunningJobs now reg agentID =
     (case GetAgent now reg agentID of
        None \<Rightarrow> reg
      | Some agentInfo \<Rightarrow>
          if RunningJobs agentInfo > 0
          then UpdateHeartbeat now reg agentID (Paused agentInfo) (RunningJobs agentInfo - 1)
          else reg)"

definition handleJobStatus ::
  "JobStatusCalls \<Rightarrow> Gateway \<Rightarrow> AgentConnection \<Rightarrow> Envelope \<Rightarrow> JobStatus \<Rightarrow> Gateway" where
  "handleJobStatus c g agentConn envelope st =
     (let agentID = AgentId envelope in
      if agentID = [] then g
      else if AgentConnection.AgentID agentConn \<noteq> agentID then g
      else let jobID = JobStatus.job_id st in
      if jobID = [] then g
      else case Get (js_get_ok c) (jobStore g) jobID of
        Inl err \<Rightarrow> g
      | Inr j \<Rightarrow>
      if AssignedAgentID j \<noteq> agentID then g
      else let attemptID = JobStatus.attempt_id st in
      if attemptID \<noteq> AttemptID j then g
      else let newStatus = jobStatusFromProto (status st) in
      if \<not> IsValid newStatus then g
      else if IsTerminal (Status j) then g
      else if newStatus = StatusRunning then
        (let tbl1 = (if stdout st \<noteq> [] \<or> stderr st \<noteq> []
                     then snd (UpdateStdoutStderr (js_stdout_ok c) (jobStore g) jobID
                                 (stdout st) (stderr st))
                     else jobStore g)
         in case UpdateStatus (js_status_query_ok c) (js_status_exec_ok c) tbl1 jobID
                   StatusRunning of
              (Some err, tbl2) \<Rightarrow> g\<lparr>jobStore := tbl2\<rparr>
            | (None, tbl2) \<Rightarrow> g\<lparr>jobStore := tbl2\<rparr>)
      else if newStatus = StatusSucceeded then
        (let outputKey = JobStatus.output_key st;
             tbl1 = snd (UpdateStdoutStderr (js_stdout_ok c) (jobStore g) jobID
                           (stdout st) (stderr st))
         in if outputKey \<noteq> [] \<and> OutputKey j = [] then
              (case UpdateStatus (js_status_query_ok c) (js_status_exec_ok c) tbl1 jobID
                      StatusFailed of
                 (Some err, tbl2) \<Rightarrow> g\<lparr>jobStore := tbl2\<rparr>
               | (None, tbl2) \<Rightarrow>
                   g\<lparr>registry := decrementRunningJobs (js_now c) (registry g) agentID,
                     jobStore := tbl2\<rparr>)
            else if outputKey \<noteq> [] \<and> outputKey \<noteq> OutputKey j then
              (case UpdateStatus (js_status_query_ok c) (js_status_exec_ok c) tbl1 jobID
                      StatusFailed of
                 (Some err, tbl2) \<Rightarrow> g\<lparr>jobStore := tbl2\<rparr>
               | (None, tbl2) \<Rightarrow>
                   g\<lparr>registry := decrementRunningJobs (js_now c) (registry g) agentID,
                     jobStore := tbl2\<rparr>)
            else
              (case UpdateStatus (js_status_query_ok c) (js_status_exec_ok c) tbl1 jobID
                      StatusSucceeded of
                 (Some err, tbl2) \<Rightarrow> g\<lparr>jobStore := tbl2\<rparr>
               | (None, tbl2) \<Rightarrow>
                   g\<lparr>registry := decrementRunningJobs (js_now c) (registry g) agentID,
                     jobStore := tbl2\<rparr>))
      else if newStatus = StatusFailed then
        (let tbl1 = snd (UpdateStdoutStderr (js_stdout_ok c) (jobStore g) jobID
                           (stdout st) (stderr st))
         in case UpdateStatus (js_status_query_ok c) (js_status_exec_ok c) tbl1 jobID
                   StatusFailed of
              (Some err, tbl2) \<Rightarrow> g\<lparr>jobStore := tbl2\<rparr>
            | (None, tbl2) \<Rightarrow>
                g\<lparr>registry := decrementRunningJobs (js_now c) (registry g) agentID,
                  jobStore := tbl2\<rparr>)
      else if newStatus = StatusCanceled \<or> newStatus = StatusLost then
        (if \<not> CanTransitionTo (Status j) newStatus then g
         else case UpdateStatus (js_status_query_ok c) (js_status_exec_ok c) (jobStore g) jobID
                     newStatus of
              (Some err, tbl2) \<Rightarrow> g\<lparr>jobStore := tbl2\<rparr>
            | (None, tbl2) \<Rightarrow>
                g\<lparr>registry := decrementRunningJobs (js_now c) (registry g) agentID,
                  jobStore := tbl2\<rparr>)
      else
        (if \<not> CanTransitionTo (Status j) newStatus then g
         else case UpdateStatus (js_status_query_ok c) (js_status_exec_ok c) (jobStore g) jobID
                     newStatus of
              (Some err, tbl2) \<Rightarrow> g\<lparr>jobStore := tbl2\<rparr>
            | (None, tbl2) \<Rightarrow> g\<lparr>jobStore := tbl2\<rparr>))"

section \<open>Agent (agent/internal/client/client.go)\<close>

text \<open>
  A Go string is a sequence of bytes and \<^verbatim>\<open>len\<close> counts bytes, as \<open>length\<close> does on
  a \<open>string\<close> here. \<^verbatim>\<open>s[:maxLen]\<close> panics for a negative bound: the value \<open>None\<close>.
\<close>

definition truncateString :: "string \<Rightarrow> int \<Rightarrow> string option" where
  "truncateString s maxLen =
     (if int (length s) \<le> maxLen then Some s
      else if maxLen < 0 then None
      else Some (take (nat maxLen) s @ ''... (truncated)''))"

text \<open>
  \<^verbatim>\<open>sanitizeUTF8\<close> calls \<^verbatim>\<open>utf8.ValidString\<close>, \<^verbatim>\<open>utf8.DecodeRuneInString\<close> and
  \<^verbatim>\<open>strings.Builder.WriteRune\<close> of the Go standard library. A rune is a \<open>nat\<close>;
  \<^verbatim>\<open>utf8.RuneError\<close> is U+FFFD. \<^verbatim>\<open>DecodeRuneInString\<close> returns the first rune of the
  string and its width in bytes, and \<open>(RuneError, 1)\<close> for a byte that starts no valid
  encoding: the first byte gives the size and the accepted range of the second byte (the
  tables \<^verbatim>\<open>first\<close> and \<^verbatim>\<open>acceptRanges\<close>), the other bytes are continuation bytes
  \<^verbatim>\<open>0x80..0xBF\<close>.
\<close>

definition RuneError :: nat where "RuneError = 65533"

definition DecodeRuneInString :: "string \<Rightarrow> nat \<times> nat" where
  "DecodeRuneInString s =
     (if length s < 1 then (RuneError, 0)
      else let s0 = of_char (s ! 0) :: nat in
      if s0 < 128 then (s0, 1)
      else if s0 < 194 \<or> 244 < s0 then (RuneError, 1)
      else let sz = (if s0 < 224 then 2 else if s0 < 240 then 3 else 4) :: nat;
               lo = (if s0 = 224 then 160 else if s0 = 240 then 144 else 128) :: nat;
               hi = (if s0 = 237 then 159 else if s0 = 244 then 143 else 191) :: nat
      in if length s < sz then (RuneError, 1)
      else let s1 = of_char (s ! 1) :: nat in
      if s1 < lo \<or> hi < s1 then (RuneError, 1)
      else if sz \<le> 2 then ((s0 mod 32) * 64 + s1 mod 64, 2)
      else let s2 = of_char (s ! 2) :: nat in
      if s2 < 128 \<or> 191 < s2 then (RuneError, 1)
      else if sz \<le> 3 then ((s0 mod 16) * 4096 + (s1 mod 64) * 64 + s2 mod 64, 3)
      else let s3 = of_char (s ! 3) :: nat in
      if s3 < 128 \<or> 191 < s3 then (RuneError, 1)
      else ((s0 mod 8) * 262144 + (s1 mod 64) * 4096 + (s2 mod 64) * 64 + s3 mod 64, 4))"

text \<open>
  \<^verbatim>\<open>WriteRune\<close> appends the UTF-8 encoding of the rune (\<^verbatim>\<open>utf8.AppendRune\<close>); a
  surrogate or a value above \<^verbatim>\<open>utf8.MaxRune\<close> is written as U+FFFD.
\<close>

definition EncodeRune :: "nat \<Rightarrow> string" where
  "EncodeRune r =
     (if r \<le> 127 then [char_of r]
      else if r \<le> 2047 then [char_of (192 + r div 64), char_of (128 + r mod 64)]
      else if r > 1114111 \<or> (55296 \<le> r \<and> r \<le> 57343) then [CHR 0xEF, CHR 0xBF, CHR 0xBD]
      else if r \<le> 65535 then
        [char_of (224 + r div 4096), char_of (128 + (r div 64) mod 64), char_of (128 + r mod 64)]
      else
        [char_of (240 + r div 262144), char_of (128 + (r div 4096) mod 64),
         char_of (128 + (r div 64) mod 64), char_of (128 + r mod 64)])"

text \<open>
  Every decoding step of a non-empty string consumes at least one byte, so the two loops
  below terminate.
\<close>

lemma DecodeRuneInString_size:
  "s \<noteq> [] \<Longrightarrow> DecodeRuneInString s = (r, w) \<Longrightarrow> 1 \<le> w \<and> w \<le> length s"
  by (cases s) (auto simp add: DecodeRuneInString_def Let_def Suc_le_eq split: if_splits)

lemma DecodeRuneInString_less:
  "s \<noteq> [] \<Longrightarrow> (r, w) = DecodeRuneInString s \<Longrightarrow> length s - w < length s"
  using DecodeRuneInString_size [of s r w] by (cases s) auto

text \<open>
  \<^verbatim>\<open>utf8.ValidString\<close>: the string consists entirely of valid encodings, that is, no
  decoding step returns \<open>(RuneError, 1)\<close>.
\<close>

function ValidString :: "string \<Rightarrow> bool" where
  "ValidString s =
     (if s = [] then True
      else case DecodeRuneInString s of
        (r, width) \<Rightarrow> if r = RuneError \<and> width = 1 then False else ValidString (drop width s))"
  by pat_completeness auto
termination
  by (relation "measure length") (auto simp add: DecodeRuneInString_less)

text \<open>
  The \<^verbatim>\<open>for len(s) > 0\<close> loop of \<^verbatim>\<open>sanitizeUTF8\<close>, with the builder \<open>b\<close>, and the
  function itself.
\<close>

function sanitizeLoop :: "string \<Rightarrow> string \<Rightarrow> string" where
  "sanitizeLoop s b =
     (if length s > 0 then
        (case DecodeRuneInString s of
           (r, width) \<Rightarrow>
             if r = RuneError \<and> width = 1 then sanitizeLoop (drop width s) (b @ EncodeRune 65533)
             else sanitizeLoop (drop width s) (b @ EncodeRune r))
      else b)"
  by pat_completeness auto
termination
  by (relation "measure (\<lambda>(s, b). length s)") (auto simp add: DecodeRuneInString_less)

definition sanitizeUTF8 :: "string \<Rightarrow> string" where
  "sanitizeUTF8 s = (if ValidString s then s else sanitizeLoop s [])"

text \<open>
  \<^verbatim>\<open>executeCommand\<close> passes the captured stdout and stderr through \<^verbatim>\<open>sanitizeUTF8\<close>
  and builds both fields of its result by \<^verbatim>\<open>truncateString(stdoutStr, 10000)\<close> and
  \<^verbatim>\<open>truncateString(stderrStr, 10000)\<close>.
\<close>

definition executeCommand_output :: "string \<Rightarrow> string option" where
  "executeCommand_output raw = truncateString (sanitizeUTF8 raw) 10000"

text \<open>
  \<^verbatim>\<open>processJob\<close> hands these fields to \<^verbatim>\<open>reportJobStatusWithOutput\<close>, which applies
  \<^verbatim>\<open>sanitizeUTF8\<close> once more before it fills the \<^verbatim>\<open>JobStatus\<close> message:
  \<open>reportedOutput raw\<close> is the string the report carries for the captured bytes \<open>raw\<close>.
\<close>

definition reportJobStatusWithOutput_output :: "string \<Rightarrow> string" where
  "reportJobStatusWithOutput_output out = sanitizeUTF8 out"

definition reportedOutput :: "string \<Rightarrow> string option" where
  "reportedOutput raw =
     (case executeCommand_output raw of
        None \<Rightarrow> None
      | Some out \<Rightarrow> Some (reportJobStatusWithOutput_output out))"

text \<open>
  \<^verbatim>\<open>jobRequestLoop\<close>: one element of the list is one turn of the \<^verbatim>\<open>select\<close>, with
  the channel that fired and what \<^verbatim>\<open>canAcceptJob()\<close> and \<^verbatim>\<open>sendRequestJob()\<close>
  answer in that turn. The loop runs until the stop channel fires; the function gives the
  value of \<^verbatim>\<open>backoff\<close> after the turns listed. Durations are nanoseconds.
\<close>

datatype SelectCase = StopChan | RequestJobChan | TimeAfter

record Turn =
  fired :: SelectCase
  canAcceptJob :: bool
  sendRequestJob_err :: bool

definition min_duration :: "int \<Rightarrow> int \<Rightarrow> int" where
  "min_duration a b = (if a < b then a else b)"

definition maxBackoff :: int where "maxBackoff = 30 * second"
definition minBackoff :: int where "minBackoff = 500 * millisecond"

fun jobRequestLoop_from :: "int \<Rightarrow> Turn list \<Rightarrow> int" where
  "jobRequestLoop_from backoff [] = backoff"
| "jobRequestLoop_from backoff (t # rest) =
     (case fired t of
        StopChan \<Rightarrow> backoff
      | RequestJobChan \<Rightarrow>
          if \<not> canAcceptJob t then jobRequestLoop_from backoff rest
          else jobRequestLoop_from minBackoff rest
      | TimeAfter \<Rightarrow>
          if \<not> canAcceptJob t
          then jobRequestLoop_from (min_duration (backoff * 2) maxBackoff) rest
          else (let backoff = minBackoff in
                if sendRequestJob_err t
                then jobRequestLoop_from (min_duration (backoff * 2) maxBackoff) rest
                else jobRequestLoop_from backoff rest))"

definition jobRequestLoop :: "Turn list \<Rightarrow> int" where
  "jobRequestLoop turns = jobRequestLoop_from (500 * millisecond) turns"

section \<open>Sample values\<close>

text \<open>
  Concrete agents, gateways and messages at which the theorems below are instantiated:
  one agent \<open>A1\<close> with room for one job and a signer that always answers.
\<close>

definition sampleJob :: "string \<Rightarrow> Status \<Rightarrow> string \<Rightarrow> Job" where
  "sampleJob jobID st agentID =
     \<lparr>JobID = jobID, CreatedAt = 0, Status = st, InputBucket = ''b'', InputKey = ''in/a.jpg'',
      OutputBucket = ''b'', OutputKey = [], OutputPrefix = [], OutputExtension = ''bin'',
      AttemptID = 1, AssignedAgentID = agentID, LeaseID = [], LeaseDeadline = None,
      Command = ''echo hello'', Message = [], Stdout = [], Stderr = []\<rparr>"

definition sampleAgent :: "string \<Rightarrow> int \<Rightarrow> AgentInfo" where
  "sampleAgent agentID running =
     \<lparr>AgentInfo.AgentID = agentID, Hostname = ''host'', MaxConcurrency = 1, Paused = False,
      RunningJobs = running, LastHeartbeat = 0, ConnectedAt = 0\<rparr>"

definition sampleProvider :: Provider where
  "sampleProvider =
     \<lparr>GenerateDownloadURL = (\<lambda>key. Inr (''https://oss/get/'' @ key)),
      GenerateUploadURL = (\<lambda>key. Inr (''https://oss/put/'' @ key))\<rparr>"

definition sampleGateway :: "int \<Rightarrow> jobs_table \<Rightarrow> string list \<Rightarrow> Gateway" where
  "sampleGateway running tbl q =
     \<lparr>registry = [''A1'' \<mapsto> sampleAgent ''A1'' running], jobStore = tbl, jobQueue = Some q,
      ossProvider = sampleProvider\<rparr>"

definition sampleConn :: AgentConnection where
  "sampleConn = \<lparr>AgentID = ''A1'', SendChan = []\<rparr>"

definition sampleReport :: "string \<Rightarrow> JobStatusEnum \<Rightarrow> string \<Rightarrow> string \<Rightarrow> JobStatus" where
  "sampleReport jobID tag outputKey out =
     \<lparr>JobStatus.job_id = jobID, attempt_id = 1, status = tag, message = [],
      output_key = outputKey,
      stdout = out, stderr = []\<rparr>"

definition sampleEnvelope :: "Payload \<Rightarrow> Envelope" where
  "sampleEnvelope p = \<lparr>AgentId = ''A1'', RequestId = ''r1'', Timestamp = 0, Payload = p\<rparr>"

definition statusCallsOK :: JobStatusCalls where
  "statusCallsOK =
     \<lparr>js_now = 1, js_get_ok = True, js_stdout_ok = True, js_status_query_ok = True,
      js_status_exec_ok = True\<rparr>"

definition requestCallsOK :: RequestJobCalls where
  "requestCallsOK =
     \<lparr>rj_now = 1, rj_lease_id = ''lease-1'', rj_dequeue_ok = (\<lambda>attempt. True),
      rj_get_ok = (\<lambda>attempt. True), rj_attempt_ok = True, rj_assign_ok = True,
      rj_status_query_ok = True, rj_status_exec_ok = True, rj_output_ok = True,
      rj_marshal_ok = True, rj_revert_status_query_ok = True, rj_revert_status_exec_ok = True,
      rj_revert_assign_ok = True, rj_enqueue_ok = True\<rparr>"

section \<open>Basic facts\<close>

lemmas Status_defs =
  StatusPending_def StatusAssigned_def StatusRunning_def StatusSucceeded_def
  StatusFailed_def StatusCanceled_def StatusLost_def

declare natToString.simps [simp del]

declare dequeueLoop.simps [simp del]

declare ValidString.simps [simp del] sanitizeLoop.simps [simp del]

lemmas sample_defs =
  sampleGateway_def sampleConn_def sampleEnvelope_def sampleReport_def statusCallsOK_def
  sampleJob_def sampleAgent_def

lemmas request_defs =
  requestCallsOK_def sampleGateway_def sampleConn_def sampleEnvelope_def sampleJob_def
  sampleAgent_def sampleProvider_def

lemmas tag_defs =
  JOB_STATUS_UNKNOWN_def JOB_STATUS_ASSIGNED_def JOB_STATUS_RUNNING_def
  JOB_STATUS_SUCCEEDED_def JOB_STATUS_FAILED_def JOB_STATUS_CANCELED_def JOB_STATUS_LOST_def

lemmas store_defs =
  Get_def UpdateStatus_def UpdateStdoutStderr_def UpdateAssignment_def UpdateOutput_def
  UpdateAttemptID_def sql_update_def

lemma Status_distinct:
  "StatusPending \<noteq> StatusAssigned" "StatusPending \<noteq> StatusRunning"
  "StatusPending \<noteq> StatusSucceeded" "StatusPending \<noteq> StatusFailed"
  "StatusPending \<noteq> StatusCanceled" "StatusPending \<noteq> StatusLost"
  "StatusAssigned \<noteq> StatusPending" "StatusAssigned \<noteq> StatusRunning"
  "StatusAssigned \<noteq> StatusSucceeded" "StatusAssigned \<noteq> StatusFailed"
  "StatusAssigned \<noteq> StatusCanceled" "StatusAssigned \<noteq> StatusLost"
  "StatusRunning \<noteq> StatusPending" "StatusRunning \<noteq> StatusAssigned"
  "StatusRunning \<noteq> StatusSucceeded" "StatusRunning \<noteq> StatusFailed"
  "StatusRunning \<noteq> StatusCanceled" "StatusRunning \<noteq> StatusLost"
  "StatusSucceeded \<noteq> StatusPending" "StatusSucceeded \<noteq> StatusAssigned"
  "StatusSucceeded \<noteq> StatusRunning" "StatusSucceeded \<noteq> StatusFailed"
  "StatusSucceeded \<noteq> StatusCanceled" "StatusSucceeded \<noteq> StatusLost"
  "StatusFailed \<noteq> StatusPending" "StatusFailed \<noteq> StatusAssigned"
  "StatusFailed \<noteq> StatusRunning" "StatusFailed \<noteq> StatusSucceeded"
  "StatusFailed \<noteq> StatusCanceled" "StatusFailed \<noteq> StatusLost"
  "StatusCanceled \<noteq> StatusPending" "StatusCanceled \<noteq> StatusAssigned"
  "StatusCanceled \<noteq> StatusRunning" "StatusCanceled \<noteq> StatusSucceeded"
  "StatusCanceled \<noteq> StatusFailed" "StatusCanceled \<noteq> StatusLost"
  "StatusLost \<noteq> StatusPending" "StatusLost \<noteq> StatusAssigned"
  "StatusLost \<noteq> StatusRunning" "StatusLost \<noteq> StatusSucceeded"
  "StatusLost \<noteq> StatusFailed" "StatusLost \<noteq> StatusCanceled"
  by (simp_all add: Status_defs)

lemma IsValid_simps:
  "IsValid StatusPending" "IsValid StatusAssigned" "IsValid StatusRunning"
  "IsValid StatusSucceeded" "IsValid StatusFailed" "IsValid StatusCanceled" "IsValid StatusLost"
  by (simp_all add: IsValid_def)

lemma intToString_1: "intToString 1 = ''1''"
  by (simp add: intToString_def natToString.simps)

section \<open>Transition table of the job store\<close>

lemma IsValid_cases:
  "IsValid s \<Longrightarrow>
     s = StatusPending \<or> s = StatusAssigned \<or> s = StatusRunning \<or> s = StatusSucceeded \<or>
     s = StatusFailed \<or> s = StatusCanceled \<or> s = StatusLost"
  by (simp add: IsValid_def)

lemma CanTransitionTo_table:
  "IsValid s \<Longrightarrow> IsValid t \<Longrightarrow> CanTransitionTo s t \<longleftrightarrow> (s, t) \<in> set spec_transition_table"
  by (auto simp: IsValid_def CanTransitionTo_def spec_transition_table_def Status_defs)

lemma terminal_no_transition: "IsTerminal s \<Longrightarrow> \<not> CanTransitionTo s t"
  by (auto simp: IsTerminal_def CanTransitionTo_def Status_defs)

lemma UpdateStatus_other_row:
  "jobID' \<noteq> jobID \<Longrightarrow> snd (UpdateStatus q e tbl jobID' t) jobID = tbl jobID"
  by (simp add: UpdateStatus_def sql_update_def split: sum.splits option.splits)

lemma UpdateStatus_terminal_unchanged:
  "tbl jobID = Some job \<Longrightarrow> IsTerminal (Status job) \<Longrightarrow> snd (UpdateStatus q e tbl jobID t) = tbl"
  by (simp add: UpdateStatus_def Get_def terminal_no_transition)

text \<open>
  Claim C1. For a stored job with status \<open>s\<close> and a target status \<open>t\<close> (both among the
  seven statuses, the database executing its statements), \<^verbatim>\<open>UpdateStatus\<close> succeeds and
  stores \<open>t\<close> exactly when \<open>s \<rightarrow> t\<close> is an edge of the transition table; otherwise it
  fails with the invalid-transition error and leaves the table as it was. Once the stored
  status is terminal, no \<^verbatim>\<open>UpdateStatus\<close> call (any job id, any target, any database
  outcome) changes the table entry of that job.
\<close>

theorem UpdateStatus_follows_transition_table:
  assumes "tbl jobID = Some job" and "Status job = s" and "IsValid s" and "IsValid t"
  shows "((s, t) \<in> set spec_transition_table \<longrightarrow>
            UpdateStatus True True tbl jobID t = (None, tbl(jobID \<mapsto> job\<lparr>Status := t\<rparr>)))
       \<and> ((s, t) \<notin> set spec_transition_table \<longrightarrow>
            UpdateStatus True True tbl jobID t = (Some ErrInvalidTransition, tbl))
       \<and> (IsTerminal s \<longrightarrow>
            (\<forall>q e jobID' t'. snd (UpdateStatus q e tbl jobID' t') jobID = Some job))"
proof -
  have edge: "CanTransitionTo s t \<longleftrightarrow> (s, t) \<in> set spec_transition_table"
    using assms(3,4) by (rule CanTransitionTo_table)
  have ok: "(s, t) \<in> set spec_transition_table \<Longrightarrow>
      UpdateStatus True True tbl jobID t = (None, tbl(jobID \<mapsto> job\<lparr>Status := t\<rparr>))"
    using assms edge by (simp add: UpdateStatus_def Get_def sql_update_def)
  have bad: "(s, t) \<notin> set spec_transition_table \<Longrightarrow>
      UpdateStatus True True tbl jobID t = (Some ErrInvalidTransition, tbl)"
    using assms edge by (simp add: UpdateStatus_def Get_def)
  have tm: "snd (UpdateStatus q e tbl jobID' t') jobID = Some job"
    if "IsTerminal s" for q e jobID' t'
  proof (cases "jobID' = jobID")
    case True
    with that assms(1,2) show ?thesis
      by (simp add: UpdateStatus_terminal_unchanged)
  next
    case False
    with assms(1) show ?thesis
      by (simp add: UpdateStatus_other_row)
  qed
  from ok bad tm show ?thesis by blast
qed

theorem UpdateStatus_follows_transition_table_witness:
  "UpdateStatus True True [''J1'' \<mapsto> sampleJob ''J1'' StatusRunning ''A1''] ''J1'' StatusSucceeded
     = (None, [''J1'' \<mapsto> sampleJob ''J1'' StatusSucceeded ''A1''])
   \<and> UpdateStatus True True [''J1'' \<mapsto> sampleJob ''J1'' StatusSucceeded ''A1''] ''J1'' StatusRunning
     = (Some ErrInvalidTransition, [''J1'' \<mapsto> sampleJob ''J1'' StatusSucceeded ''A1''])
   \<and> snd (UpdateStatus True True [''J1'' \<mapsto> sampleJob ''J1'' StatusSucceeded ''A1''] ''J1''
            StatusFailed) ''J1''
     = Some (sampleJob ''J1'' StatusSucceeded ''A1'')"
proof -
  let ?run = "sampleJob ''J1'' StatusRunning ''A1''"
  let ?done = "sampleJob ''J1'' StatusSucceeded ''A1''"
  have v: "IsValid StatusRunning" "IsValid StatusSucceeded" "IsValid StatusFailed"
    by (simp_all add: IsValid_def)
  have e1: "(StatusRunning, StatusSucceeded) \<in> set spec_transition_table"
    by (simp add: spec_transition_table_def)
  have e2: "(StatusSucceeded, StatusRunning) \<notin> set spec_transition_table"
    by (simp add: spec_transition_table_def Status_defs)
  have t: "IsTerminal StatusSucceeded"
    by (simp add: IsTerminal_def)
  have s1: "Status ?run = StatusRunning" and s2: "Status ?done = StatusSucceeded"
    by (simp_all add: sampleJob_def)
  have upd: "?run\<lparr>Status := StatusSucceeded\<rparr> = ?done"
    by (simp add: sampleJob_def)
  have a: "UpdateStatus True True [''J1'' \<mapsto> ?run] ''J1'' StatusSucceeded = (None, [''J1'' \<mapsto> ?done])"
    using UpdateStatus_follows_transition_table
            [of "[''J1'' \<mapsto> ?run]" "''J1''" ?run StatusRunning StatusSucceeded] v e1 s1 upd
    by simp
  have b: "UpdateStatus True True [''J1'' \<mapsto> ?done] ''J1'' StatusRunning
             = (Some ErrInvalidTransition, [''J1'' \<mapsto> ?done])"
    using UpdateStatus_follows_transition_table
            [of "[''J1'' \<mapsto> ?done]" "''J1''" ?done StatusSucceeded StatusRunning] v e2 s2
    by simp
  have c: "snd (UpdateStatus True True [''J1'' \<mapsto> ?done] ''J1'' StatusFailed) ''J1'' = Some ?done"
    using UpdateStatus_follows_transition_table
            [of "[''J1'' \<mapsto> ?done]" "''J1''" ?done StatusSucceeded StatusFailed] v t s2
    by simp
  from a b c show ?thesis by blast
qed

section \<open>Output prefix on creation\<close>

lemma EnsureOutputPrefix_startsWith:
  "startsWith (OutputPrefix (EnsureOutputPrefix j)) (generateDefaultOutputPrefix j)"
  by (simp add: EnsureOutputPrefix_def Let_def startsWith_def)

lemma EnsureOutputPrefix_keeps_id:
  "JobID (EnsureOutputPrefix j) = JobID j"
  by (simp_all add: EnsureOutputPrefix_def Let_def)

lemma EnsureOutputPrefix_overwrites:
  "\<not> startsWith (OutputPrefix j) (generateDefaultOutputPrefix j) \<Longrightarrow>
     OutputPrefix (EnsureOutputPrefix j) = generateDefaultOutputPrefix j"
  by (auto simp add: EnsureOutputPrefix_def Let_def startsWith_def)

lemma EnsureOutputPrefix_keeps:
  "startsWith (OutputPrefix j) (generateDefaultOutputPrefix j) \<Longrightarrow>
     OutputPrefix (EnsureOutputPrefix j) = OutputPrefix j"
  by (auto simp add: EnsureOutputPrefix_def Let_def startsWith_def generateDefaultOutputPrefix_def)

lemma Create_persists:
  "Create exec_ok tbl job = (None, tbl') \<Longrightarrow> tbl' (JobID job) = Some (EnsureOutputPrefix job)"
  by (auto simp add: Create_def Let_def EnsureOutputPrefix_keeps_id split: option.splits if_splits)

text \<open>
  Claim C3, as the code has it. For every job accepted by \<^verbatim>\<open>Create\<close>, the persisted
  output prefix starts with \<open>jobs/{job_id}/{attempt_id}/\<close>. A submitted prefix that does not
  start with this canonical string (the empty one included) is overwritten by it; a
  submitted prefix that starts with it, the canonical string itself or a longer path below
  it, is persisted as submitted.
\<close>

theorem Create_output_prefix:
  assumes "Create exec_ok tbl job = (None, tbl')"
  shows "(let canonical = ''jobs/'' @ JobID job @ ''/'' @ intToString (AttemptID job) @ ''/'';
              persisted = map_option OutputPrefix (tbl' (JobID job))
          in map_option (\<lambda>p. startsWith p canonical) persisted = Some True
           \<and> (\<not> startsWith (OutputPrefix job) canonical \<longrightarrow> persisted = Some canonical)
           \<and> (startsWith (OutputPrefix job) canonical \<longrightarrow> persisted = Some (OutputPrefix job)))"
proof -
  have p: "''jobs/'' @ JobID job @ ''/'' @ intToString (AttemptID job) @ ''/''
             = generateDefaultOutputPrefix job"
    by (simp add: generateDefaultOutputPrefix_def)
  have row: "tbl' (JobID job) = Some (EnsureOutputPrefix job)"
    using assms by (rule Create_persists)
  show ?thesis
    unfolding Let_def p using row
    by (simp add: EnsureOutputPrefix_startsWith EnsureOutputPrefix_overwrites EnsureOutputPrefix_keeps)
qed

lemma Create_sample:
  "Create True Map.empty ((sampleJob ''J'' StatusPending [])\<lparr>OutputPrefix := p\<rparr>)
     = (None, [''J'' \<mapsto> EnsureOutputPrefix ((sampleJob ''J'' StatusPending [])\<lparr>OutputPrefix := p\<rparr>)])"
  by (simp add: Create_def Validate_def sampleJob_def IsValid_def Let_def EnsureOutputPrefix_keeps_id)

theorem Create_output_prefix_witness:
  "map_option OutputPrefix
     (snd (Create True Map.empty
             ((sampleJob ''J'' StatusPending [])\<lparr>OutputPrefix := ''results/''\<rparr>)) ''J'')
     = Some ''jobs/J/1/''
   \<and> map_option OutputPrefix
     (snd (Create True Map.empty
             ((sampleJob ''J'' StatusPending [])\<lparr>OutputPrefix := ''jobs/J/1/''\<rparr>)) ''J'')
     = Some ''jobs/J/1/''"
proof -
  let ?a = "(sampleJob ''J'' StatusPending [])\<lparr>OutputPrefix := ''results/''\<rparr>"
  let ?b = "(sampleJob ''J'' StatusPending [])\<lparr>OutputPrefix := ''jobs/J/1/''\<rparr>"
  have ca: "Create True Map.empty ?a = (None, snd (Create True Map.empty ?a))"
   and cb: "Create True Map.empty ?b = (None, snd (Create True Map.empty ?b))"
    by (simp_all add: Create_sample)
  have na: "\<not> startsWith (OutputPrefix ?a) (''jobs/'' @ JobID ?a @ ''/'' @ intToString (AttemptID ?a) @ ''/'')"
    by (simp add: startsWith_def sampleJob_def intToString_1)
  have nb: "startsWith (OutputPrefix ?b) (''jobs/'' @ JobID ?b @ ''/'' @ intToString (AttemptID ?b) @ ''/'')"
    by (simp add: startsWith_def sampleJob_def intToString_1)
  have ida: "JobID ?a = ''J''" "AttemptID ?a = 1" "JobID ?b = ''J''" "AttemptID ?b = 1"
    by (simp_all add: sampleJob_def)
  have a: "map_option OutputPrefix (snd (Create True Map.empty ?a) ''J'') = Some ''jobs/J/1/''"
    using Create_output_prefix [OF ca] na by (simp add: Let_def ida intToString_1)
  have b: "map_option OutputPrefix (snd (Create True Map.empty ?b) ''J'') = Some ''jobs/J/1/''"
    using Create_output_prefix [OF cb] nb by (simp add: Let_def ida intToString_1)
  from a b show ?thesis by blast
qed

text \<open>
  The claim as written (the persisted prefix always equals the canonical string) fails for
  a job submitted with a longer prefix below the canonical one.
\<close>

theorem Create_output_prefix_counterexample:
  "fst (Create True Map.empty
          ((sampleJob ''J'' StatusPending [])\<lparr>OutputPrefix := ''jobs/J/1/sub/''\<rparr>)) = None
   \<and> map_option OutputPrefix
        (snd (Create True Map.empty
               ((sampleJob ''J'' StatusPending [])\<lparr>OutputPrefix := ''jobs/J/1/sub/''\<rparr>)) ''J'')
       = Some ''jobs/J/1/sub/''
   \<and> ''jobs/J/1/sub/'' \<noteq> ''jobs/'' @ ''J'' @ ''/'' @ intToString 1 @ ''/''"
  by (simp add: Create_def Validate_def sampleJob_def IsValid_def Status_defs EnsureOutputPrefix_def generateDefaultOutputPrefix_def intToString_1 startsWith_def Let_def)

section \<open>Truncation of command output on the agent\<close>

subsection \<open>Decoding, encoding and validity\<close>

lemma DecodeRuneInString_append:
  assumes "s \<noteq> []" and "DecodeRuneInString s = (r, w)" and "\<not> (r = RuneError \<and> w = 1)"
  shows "DecodeRuneInString (s @ x) = (r, w)"
proof -
  let ?s0 = "of_char (s ! 0) :: nat"
  let ?sz = "(if ?s0 < 224 then 2 else if ?s0 < 240 then 3 else 4) :: nat"
  have n0: "(s @ x) ! 0 = s ! 0" "\<not> length s < 1" "\<not> length (s @ x) < 1"
    using assms(1) by (simp_all add: nth_append Suc_le_eq)
  show ?thesis
  proof (cases "?s0 < 128")
    case True
    from assms(1) obtain a t where "s = a # t"
      by (cases s) auto
    with True assms(2) show ?thesis
      by (simp add: DecodeRuneInString_def)
  next
    case hi: False
    have first: "\<not> (?s0 < 194 \<or> 244 < ?s0)"
    proof
      assume "?s0 < 194 \<or> 244 < ?s0"
      with hi n0 have "DecodeRuneInString s = (RuneError, 1)"
        by (simp add: DecodeRuneInString_def)
      with assms(2,3) show False by simp
    qed
    have len: "\<not> length s < ?sz"
    proof
      assume "length s < ?sz"
      with hi first n0 have "DecodeRuneInString s = (RuneError, 1)"
        by (simp add: DecodeRuneInString_def Let_def)
      with assms(2,3) show False by simp
    qed
    then have len': "\<not> length (s @ x) < ?sz"
      by simp
    have nth: "(s @ x) ! i = s ! i" if "i < ?sz" for i
      using that len by (simp add: nth_append)
    have n1: "(s @ x) ! 1 = s ! 1"
      by (rule nth) simp
    have n2: "(s @ x) ! 2 = s ! 2" if "\<not> ?sz \<le> 2"
      using that by (intro nth) (simp split: if_splits)
    have n3: "(s @ x) ! 3 = s ! 3" if "\<not> ?sz \<le> 3"
      using that by (intro nth) (simp split: if_splits)
    have "DecodeRuneInString (s @ x) = DecodeRuneInString s"
    proof (cases "?sz \<le> 2")
      case True
      then show ?thesis
        unfolding DecodeRuneInString_def Let_def n0(1) n1
        using hi first n0(2,3) len len' by (simp split: if_splits)
    next
      case f2: False
      show ?thesis
      proof (cases "?sz \<le> 3")
        case True
        then show ?thesis
          unfolding DecodeRuneInString_def Let_def n0(1) n1 n2 [OF f2]
          using hi first n0(2,3) len len' f2 by (simp split: if_splits)
      next
        case f3: False
        show ?thesis
          unfolding DecodeRuneInString_def Let_def n0(1) n1 n2 [OF f2] n3 [OF f3]
          using hi first n0(2,3) len len' f2 f3 by (simp split: if_splits)
      qed
    qed
    with assms(2) show ?thesis by simp
  qed
qed

lemma ValidString_append:
  "ValidString b \<Longrightarrow> ValidString (b @ x) = ValidString x"
proof (induction b rule: ValidString.induct)
  case (1 s)
  show ?case
  proof (cases "s = []")
    case True
    then show ?thesis by simp
  next
    case False
    obtain r w where d: "DecodeRuneInString s = (r, w)"
      by (cases "DecodeRuneInString s")
    from "1.prems" False d have ok: "\<not> (r = RuneError \<and> w = 1)" and rest: "ValidString (drop w s)"
      by (auto simp add: ValidString.simps [of s] split: if_splits)
    from DecodeRuneInString_size [OF False d] have w: "1 \<le> w" "w \<le> length s"
      by simp_all
    have d': "DecodeRuneInString (s @ x) = (r, w)"
      using False d ok by (rule DecodeRuneInString_append)
    have "ValidString (s @ x) = ValidString (drop w (s @ x))"
      using False d' ok by (subst ValidString.simps) auto
    also have "drop w (s @ x) = drop w s @ x"
      using w by simp
    also have "ValidString (drop w s @ x) = ValidString x"
      using "1.IH" [OF False d [symmetric] ok rest] .
    finally show ?thesis .
  qed
qed

lemma ValidString_Nil: "ValidString []"
  by (simp add: ValidString.simps)

lemma of_char_char_of: "n < 256 \<Longrightarrow> of_char (char_of n) = (n::nat)"
  by simp

lemma ValidString_single:
  assumes "s \<noteq> []" and "DecodeRuneInString s = (r, length s)"
    and "\<not> (r = RuneError \<and> length s = 1)"
  shows "ValidString s"
  using assms by (subst ValidString.simps) (simp add: ValidString_Nil)

lemma decode_1: "of_char a < (128::nat) \<Longrightarrow> DecodeRuneInString (a # s) = (of_char a, 1)"
  by (simp add: DecodeRuneInString_def)

lemma decode_2:
  assumes "194 \<le> (of_char a :: nat)" "(of_char a :: nat) < 224"
    and "128 \<le> (of_char b :: nat)" "(of_char b :: nat) \<le> 191"
  shows "DecodeRuneInString (a # b # s) = ((of_char a mod 32) * 64 + of_char b mod 64, 2)"
  using assms by (simp add: DecodeRuneInString_def Let_def)

lemma decode_3:
  assumes "224 \<le> (of_char a :: nat)" "(of_char a :: nat) < 240"
    and "(if of_char a = (224::nat) then 160 else 128) \<le> (of_char b :: nat)"
    and "(of_char b :: nat) \<le> (if of_char a = (237::nat) then 159 else 191)"
    and "128 \<le> (of_char c :: nat)" "(of_char c :: nat) \<le> 191"
  shows "DecodeRuneInString (a # b # c # s)
           = ((of_char a mod 16) * 4096 + (of_char b mod 64) * 64 + of_char c mod 64, 3)"
  using assms by (simp add: DecodeRuneInString_def Let_def split: if_splits)

lemma decode_4:
  assumes "240 \<le> (of_char a :: nat)" "(of_char a :: nat) \<le> 244"
    and "(if of_char a = (240::nat) then 144 else 128) \<le> (of_char b :: nat)"
    and "(of_char b :: nat) \<le> (if of_char a = (244::nat) then 143 else 191)"
    and "128 \<le> (of_char c :: nat)" "(of_char c :: nat) \<le> 191"
    and "128 \<le> (of_char d :: nat)" "(of_char d :: nat) \<le> 191"
  shows "DecodeRuneInString (a # b # c # d # s)
           = ((of_char a mod 8) * 262144 + (of_char b mod 64) * 4096 + (of_char c mod 64) * 64
                + of_char d mod 64, 4)"
  using assms by (simp add: DecodeRuneInString_def Let_def split: if_splits)



lemma div_4096: "(r::nat) div 4096 = r div 64 div 64"
  using div_mult2_eq [of r 64 64] by simp

lemma div_262144: "(r::nat) div 262144 = r div 4096 div 64"
  using div_mult2_eq [of r 4096 64] by simp

lemma mod_band:
  "(q::nat) div 64 = k \<Longrightarrow> q mod 64 = q - 64 * k"
  by (metis minus_mult_div_eq_mod)

lemma d_lo: "2047 < (r::nat) \<Longrightarrow> r div 4096 = 0 \<Longrightarrow> 32 \<le> (r div 64) mod 64"
proof -
  assume a: "2047 < r" and b: "r div 4096 = 0"
  from a have "32 \<le> r div 64" by simp
  moreover from b have "(r div 64) mod 64 = r div 64 - 64 * 0"
    unfolding div_4096 by (rule mod_band)
  ultimately show ?thesis by simp
qed

lemma d_hi: "\<not> (55296 \<le> (r::nat) \<and> r \<le> 57343) \<Longrightarrow> r div 4096 = 13 \<Longrightarrow> (r div 64) mod 64 \<le> 31"
proof -
  assume a: "\<not> (55296 \<le> r \<and> r \<le> 57343)" and b: "r div 4096 = 13"
  from b have "r < 57344" by simp
  with a have "r < 55296" by simp
  then have "r div 64 < 864" by simp
  moreover from b have "(r div 64) mod 64 = r div 64 - 64 * 13"
    unfolding div_4096 by (rule mod_band)
  ultimately show ?thesis by simp
qed

lemma e_lo: "65535 < (r::nat) \<Longrightarrow> r div 262144 = 0 \<Longrightarrow> 16 \<le> (r div 4096) mod 64"
proof -
  assume a: "65535 < r" and b: "r div 262144 = 0"
  from a have "16 \<le> r div 4096" by simp
  moreover from b have "(r div 4096) mod 64 = r div 4096 - 64 * 0"
    unfolding div_262144 by (rule mod_band)
  ultimately show ?thesis by simp
qed

lemma e_hi: "(r::nat) \<le> 1114111 \<Longrightarrow> r div 262144 = 4 \<Longrightarrow> (r div 4096) mod 64 \<le> 15"
proof -
  assume a: "r \<le> 1114111" and b: "r div 262144 = 4"
  from a have "r div 4096 < 272" by simp
  moreover from b have "(r div 4096) mod 64 = r div 4096 - 64 * 4"
    unfolding div_262144 by (rule mod_band)
  ultimately show ?thesis by simp
qed

lemma ValidString_EncodeRune: "ValidString (EncodeRune r)"
proof -
  consider (a) "r \<le> 127" | (b) "127 < r" "r \<le> 2047"
    | (c) "2047 < r" "r > 1114111 \<or> (55296 \<le> r \<and> r \<le> 57343)"
    | (d) "2047 < r" "r \<le> 65535" "\<not> (55296 \<le> r \<and> r \<le> 57343)"
    | (e) "65535 < r" "r \<le> 1114111"
    by linarith
  then show ?thesis
  proof cases
    case a
    then have e: "EncodeRune r = [char_of r]"
      by (simp add: EncodeRune_def)
    have o: "of_char (char_of r) = r"
      using a by (intro of_char_char_of) simp
    have "DecodeRuneInString [char_of r] = (r, 1)"
      using decode_1 [of "char_of r" "[]"] a o by simp
    moreover have "r \<noteq> RuneError"
      using a by (simp add: RuneError_def)
    ultimately show ?thesis
      unfolding e by (intro ValidString_single) simp_all
  next
    case b
    let ?a = "char_of (192 + r div 64)" and ?b = "char_of (128 + r mod 64)"
    from b have e: "EncodeRune r = [?a, ?b]"
      by (simp add: EncodeRune_def)
    have oa: "of_char ?a = 192 + r div 64"
      using b by (intro of_char_char_of) simp
    have ob: "of_char ?b = 128 + r mod 64"
      by (intro of_char_char_of) simp
    have "\<exists>v. DecodeRuneInString [?a, ?b] = (v, 2)"
      using b by (subst decode_2) (simp_all add: oa ob)
    then show ?thesis
      unfolding e by (auto intro!: ValidString_single)
  next
    case c
    then have e: "EncodeRune r = [CHR 0xEF, CHR 0xBF, CHR 0xBD]"
      by (auto simp add: EncodeRune_def)
    have "\<exists>v. DecodeRuneInString [CHR 0xEF, CHR 0xBF, CHR 0xBD] = (v, 3)"
      by (subst decode_3) simp_all
    then show ?thesis
      unfolding e by (auto intro!: ValidString_single)
  next
    case d
    let ?a = "char_of (224 + r div 4096)" and ?b = "char_of (128 + (r div 64) mod 64)"
    let ?c = "char_of (128 + r mod 64)"
    from d have ns: "\<not> (1114111 < r \<or> 55296 \<le> r \<and> r \<le> 57343)"
      by simp
    from d(1) have e: "EncodeRune r = [?a, ?b, ?c]"
      by (simp add: EncodeRune_def ns d(2))
    have oa: "of_char ?a = 224 + r div 4096"
      using d by (intro of_char_char_of) simp
    have ob: "of_char ?b = 128 + (r div 64) mod 64"
      by (intro of_char_char_of) simp
    have oc: "of_char ?c = 128 + r mod 64"
      by (intro of_char_char_of) simp
    have lo: "r div 4096 = 0 \<Longrightarrow> 32 \<le> (r div 64) mod 64"
      using d(1) by (rule d_lo)
    have hi: "r div 4096 = 13 \<Longrightarrow> (r div 64) mod 64 \<le> 31"
      using d(3) by (rule d_hi)
    have "(r div 64) mod 64 < 64"
      by simp
    then have m: "(r div 64) mod 64 \<le> 63"
      by linarith
    have "\<exists>v. DecodeRuneInString [?a, ?b, ?c] = (v, 3)"
      using d lo hi m by (subst decode_3) (simp_all add: oa ob oc)
    then show ?thesis
      unfolding e by (auto intro!: ValidString_single)
  next
    case e
    let ?a = "char_of (240 + r div 262144)" and ?b = "char_of (128 + (r div 4096) mod 64)"
    let ?c = "char_of (128 + (r div 64) mod 64)" and ?d = "char_of (128 + r mod 64)"
    from e have enc: "EncodeRune r = [?a, ?b, ?c, ?d]"
      by (simp add: EncodeRune_def)
    have oa: "of_char ?a = 240 + r div 262144"
      using e by (intro of_char_char_of) simp
    have ob: "of_char ?b = 128 + (r div 4096) mod 64"
      by (intro of_char_char_of) simp
    have oc: "of_char ?c = 128 + (r div 64) mod 64"
      by (intro of_char_char_of) simp
    have od: "of_char ?d = 128 + r mod 64"
      by (intro of_char_char_of) simp
    have top: "r div 262144 \<le> 4"
      using e(2) by simp
    have lo: "r div 262144 = 0 \<Longrightarrow> 16 \<le> (r div 4096) mod 64"
      using e(1) by (rule e_lo)
    have hi: "r div 262144 = 4 \<Longrightarrow> (r div 4096) mod 64 \<le> 15"
      using e(2) by (rule e_hi)
    have "(r div 4096) mod 64 < 64"
      by simp
    then have m: "(r div 4096) mod 64 \<le> 63"
      by linarith
    have "\<exists>v. DecodeRuneInString [?a, ?b, ?c, ?d] = (v, 4)"
      using top lo hi m by (subst decode_4) (simp_all add: oa ob oc od)
    then show ?thesis
      unfolding enc by (auto intro!: ValidString_single)
  qed
qed


lemma sanitizeLoop_valid: "ValidString b \<Longrightarrow> ValidString (sanitizeLoop s b)"
proof (induction s b rule: sanitizeLoop.induct)
  case (1 s b)
  show ?case
  proof (cases "length s > 0")
    case False
    then show ?thesis
      using "1.prems" by (subst sanitizeLoop.simps) simp
  next
    case True
    obtain r width where d: "DecodeRuneInString s = (r, width)"
      by (cases "DecodeRuneInString s")
    have v: "ValidString (b @ EncodeRune x)" for x
      using "1.prems" by (simp add: ValidString_append ValidString_EncodeRune)
    show ?thesis
    proof (cases "r = RuneError \<and> width = 1")
      case bad: True
      have "ValidString (sanitizeLoop (drop width s) (b @ EncodeRune 65533))"
        using "1.IH"(1) [OF True d [symmetric] bad v] .
      then show ?thesis
        using True d bad by (subst sanitizeLoop.simps) simp
    next
      case good: False
      have "ValidString (sanitizeLoop (drop width s) (b @ EncodeRune r))"
        using "1.IH"(2) [OF True d [symmetric] good v] .
      then show ?thesis
        using True d good by (subst sanitizeLoop.simps) auto
    qed
  qed
qed

lemma sanitizeUTF8_valid: "ValidString (sanitizeUTF8 s)"
  by (simp add: sanitizeUTF8_def sanitizeLoop_valid ValidString_Nil)

lemma sanitizeUTF8_id: "ValidString s \<Longrightarrow> sanitizeUTF8 s = s"
  by (simp add: sanitizeUTF8_def)

lemma ValidString_ascii: "\<forall>c\<in>set p. (of_char c :: nat) < 128 \<Longrightarrow> ValidString (p @ s) = ValidString s"
proof (induction p)
  case Nil
  then show ?case by simp
next
  case (Cons a p)
  then have a: "(of_char a :: nat) < 128" by simp
  have "ValidString ((a # p) @ s) = ValidString (p @ s)"
    using a by (subst ValidString.simps) (simp add: decode_1 RuneError_def)
  then show ?case using Cons by simp
qed

lemma sanitizeLoop_ascii:
  "\<forall>c\<in>set p. (of_char c :: nat) < 128 \<Longrightarrow> sanitizeLoop (p @ s) b = sanitizeLoop s (b @ p)"
proof (induction p arbitrary: b)
  case Nil
  then show ?case by simp
next
  case (Cons a p)
  then have a: "(of_char a :: nat) < 128" by simp
  have "sanitizeLoop ((a # p) @ s) b = sanitizeLoop (p @ s) (b @ [a])"
    using a by (subst sanitizeLoop.simps) (simp add: decode_1 RuneError_def EncodeRune_def)
  then show ?case using Cons by simp
qed

lemma marker_ascii: "\<forall>c\<in>set ''... (truncated)''. (of_char c :: nat) < 128"
  by simp

lemma ValidString_marker: "ValidString ''... (truncated)''"
  using ValidString_ascii [OF marker_ascii, of "[]"] by (simp add: ValidString_Nil)

lemma reportedOutput_eq:
  "reportedOutput raw =
     (case truncateString (sanitizeUTF8 raw) 10000 of
        None \<Rightarrow> None
      | Some out \<Rightarrow> Some (sanitizeUTF8 out))"
  by (simp add: reportedOutput_def executeCommand_output_def reportJobStatusWithOutput_output_def
      split: option.splits)

lemma ascii_a: "\<forall>c\<in>set (replicate n CHR ''a''). (of_char c :: nat) < 128"
  by simp

lemma sanitize_as: "sanitizeUTF8 (replicate n CHR ''a'') = replicate n CHR ''a''"
  using ValidString_ascii [OF ascii_a, of n "[]"] by (simp add: sanitizeUTF8_id ValidString_Nil)

lemma ascii_hello: "\<forall>c\<in>set ''hello''. (of_char c :: nat) < 128"
  by simp

lemma sanitize_hello: "sanitizeUTF8 ''hello'' = ''hello''"
  using ValidString_ascii [OF ascii_hello, of "[]"] by (simp add: sanitizeUTF8_id ValidString_Nil)

lemma ValidString_as: "ValidString (replicate n CHR ''a'')"
  using ValidString_ascii [OF ascii_a, of n "[]"] by (simp add: ValidString_Nil)

lemma char_239: "[char_of (239::nat), char_of (191::nat), char_of (189::nat)] = [CHR 0xEF, CHR 0xBF, CHR 0xBD]"
  by code_simp

lemma EncodeRune_RuneError: "EncodeRune 65533 = [CHR 0xEF, CHR 0xBF, CHR 0xBD]"
  by (simp add: EncodeRune_def char_239)

lemma split_decode: "DecodeRuneInString (CHR 0xC3 # CHR ''.'' # s) = (RuneError, 1)"
  by (simp add: DecodeRuneInString_def Let_def)

lemma e_acute_valid: "ValidString (replicate n CHR ''a'' @ [CHR 0xC3, CHR 0xA9, CHR ''b''])"
proof -
  have "DecodeRuneInString [CHR 0xC3, CHR 0xA9, CHR ''b''] = (233, 2)"
    by (subst decode_2) simp_all
  then have "ValidString [CHR 0xC3, CHR 0xA9, CHR ''b''] = ValidString [CHR ''b'']"
    by (subst ValidString.simps) (simp add: RuneError_def)
  moreover have "ValidString ([CHR ''b''] @ [])"
    by (subst ValidString_ascii) (simp_all add: ValidString_Nil)
  ultimately show ?thesis
    by (simp add: ValidString_ascii [OF ascii_a])
qed

subsection \<open>The reported string\<close>

text \<open>
  Claim C8, as the code has it. The limit is 10000 bytes. Let \<open>s\<close> be the captured stdout
  or stderr after \<^verbatim>\<open>sanitizeUTF8\<close>. If \<open>s\<close> has at most 10000 bytes, the report carries
  \<open>s\<close> unmodified. If \<open>s\<close> is longer and its first 10000 bytes end on a character boundary
  (they are valid UTF-8), the report carries these 10000 bytes followed by the marker
  \<open>... (truncated)\<close>, and nothing else is changed. Nothing is stated for a cut that falls
  inside a multi-byte character.
\<close>

theorem reportedOutput_limit:
  "(length (sanitizeUTF8 raw) \<le> 10000 \<longrightarrow> reportedOutput raw = Some (sanitizeUTF8 raw))
   \<and> (length (sanitizeUTF8 raw) > 10000 \<and> ValidString (take 10000 (sanitizeUTF8 raw))
        \<longrightarrow> reportedOutput raw = Some (take 10000 (sanitizeUTF8 raw) @ ''... (truncated)''))"
proof (intro conjI impI)
  assume "length (sanitizeUTF8 raw) \<le> 10000"
  then show "reportedOutput raw = Some (sanitizeUTF8 raw)"
    by (simp add: reportedOutput_eq truncateString_def sanitizeUTF8_id sanitizeUTF8_valid)
next
  assume a: "length (sanitizeUTF8 raw) > 10000 \<and> ValidString (take 10000 (sanitizeUTF8 raw))"
  then have "ValidString (take 10000 (sanitizeUTF8 raw) @ ''... (truncated)'')"
    by (simp only: ValidString_append ValidString_marker)
  then show "reportedOutput raw = Some (take 10000 (sanitizeUTF8 raw) @ ''... (truncated)'')"
    using a by (simp add: reportedOutput_eq truncateString_def sanitizeUTF8_id)
qed

theorem reportedOutput_limit_witness:
  "reportedOutput ''hello'' = Some ''hello''
   \<and> reportedOutput (replicate 10001 CHR ''a'') = Some (replicate 10000 CHR ''a'' @ ''... (truncated)'')"
  using reportedOutput_limit [of "''hello''"] reportedOutput_limit [of "replicate 10001 CHR ''a''"]
    ValidString_as [of 10000]
  by (simp add: sanitize_as sanitize_hello)

text \<open>
  The claim as written puts the limit at 10 KiB (10240 bytes) and lets the marker be the
  only modification of every longer string. A string of 10001 bytes is within 10 KiB
  and is not reported unmodified. And for 9999 letters followed by the two bytes of
  \<open>U+00E9\<close> and one more letter (valid UTF-8, 10002 bytes) the cut at byte 10000 falls
  between the two bytes of that character: \<^verbatim>\<open>reportJobStatusWithOutput\<close> sanitizes the
  truncated string again and the report carries the three bytes of U+FFFD in place of
  byte 10000, so it is not the first 10000 bytes followed by the marker.
\<close>

theorem reportedOutput_limit_counterexample:
  "length (sanitizeUTF8 (replicate 10001 CHR ''a'')) \<le> 10 * 1024
   \<and> reportedOutput (replicate 10001 CHR ''a'') \<noteq> Some (sanitizeUTF8 (replicate 10001 CHR ''a''))
   \<and> sanitizeUTF8 (replicate 9999 CHR ''a'' @ [CHR 0xC3, CHR 0xA9, CHR ''b''])
       = replicate 9999 CHR ''a'' @ [CHR 0xC3, CHR 0xA9, CHR ''b'']
   \<and> reportedOutput (replicate 9999 CHR ''a'' @ [CHR 0xC3, CHR 0xA9, CHR ''b''])
       = Some (replicate 9999 CHR ''a'' @ [CHR 0xEF, CHR 0xBF, CHR 0xBD] @ ''... (truncated)'')
   \<and> reportedOutput (replicate 9999 CHR ''a'' @ [CHR 0xC3, CHR 0xA9, CHR ''b''])
       \<noteq> Some (take 10000 (sanitizeUTF8 (replicate 9999 CHR ''a'' @ [CHR 0xC3, CHR 0xA9, CHR ''b'']))
                 @ ''... (truncated)'')"
proof -
  let ?raw = "replicate 9999 CHR ''a'' @ [CHR 0xC3, CHR 0xA9, CHR ''b'']"
  let ?cut = "replicate 9999 CHR ''a'' @ CHR 0xC3 # ''... (truncated)''"
  let ?out = "replicate 9999 CHR ''a'' @ [CHR 0xEF, CHR 0xBF, CHR 0xBD] @ ''... (truncated)''"
  have s: "sanitizeUTF8 ?raw = ?raw"
    by (rule sanitizeUTF8_id) (rule e_acute_valid)
  have t: "truncateString ?raw 10000 = Some ?cut"
    by (simp add: truncateString_def)
  have nv: "\<not> ValidString ?cut"
    by (subst ValidString_ascii [OF ascii_a], subst ValidString.simps)
      (simp add: split_decode)
  have "sanitizeLoop ?cut [] = sanitizeLoop (CHR 0xC3 # ''... (truncated)'') (replicate 9999 CHR ''a'')"
    using sanitizeLoop_ascii [OF ascii_a, of 9999 "CHR 0xC3 # ''... (truncated)''" "[]"] by simp
  also have "\<dots> = sanitizeLoop (''... (truncated)'' @ [])
                      (replicate 9999 CHR ''a'' @ [CHR 0xEF, CHR 0xBF, CHR 0xBD])"
    by (subst sanitizeLoop.simps) (simp add: split_decode EncodeRune_RuneError)
  also have "\<dots> = sanitizeLoop []
                      ((replicate 9999 CHR ''a'' @ [CHR 0xEF, CHR 0xBF, CHR 0xBD]) @ ''... (truncated)'')"
    by (rule sanitizeLoop_ascii [OF marker_ascii])
  also have "\<dots> = ?out"
    by (subst sanitizeLoop.simps) simp
  finally have l: "sanitizeLoop ?cut [] = ?out" .
  have r: "reportedOutput ?raw = Some ?out"
    unfolding reportedOutput_eq s t by (simp add: sanitizeUTF8_def nv l)
  have "length ?out \<noteq> length (take 10000 ?raw @ ''... (truncated)'')"
    by simp
  then have d: "?out \<noteq> take 10000 ?raw @ ''... (truncated)''"
    by metis
  have "reportedOutput (replicate 10001 CHR ''a'')
          = Some (replicate 10000 CHR ''a'' @ ''... (truncated)'')"
    by (simp add: reportedOutput_eq truncateString_def sanitize_as sanitizeUTF8_id
        ValidString_append ValidString_as ValidString_marker)
  moreover have "length (replicate 10000 CHR ''a'' @ ''... (truncated)'')
                   \<noteq> length (replicate 10001 CHR ''a'')"
    by simp
  then have "replicate 10000 CHR ''a'' @ ''... (truncated)'' \<noteq> replicate 10001 CHR ''a''"
    by metis
  ultimately have "reportedOutput (replicate 10001 CHR ''a'')
                     \<noteq> Some (sanitizeUTF8 (replicate 10001 CHR ''a''))"
    by (simp add: sanitize_as)
  then show ?thesis
    using s r d by (simp add: sanitize_as)
qed

section \<open>Status reports with an unrecognized tag\<close>

lemma no_transition_to_pending: "\<not> CanTransitionTo s StatusPending"
  by (simp add: CanTransitionTo_def Status_defs)

lemma jobStatusFromProto_unknown:
  "st \<noteq> JOB_STATUS_ASSIGNED \<Longrightarrow> st \<noteq> JOB_STATUS_RUNNING \<Longrightarrow> st \<noteq> JOB_STATUS_SUCCEEDED \<Longrightarrow>
   st \<noteq> JOB_STATUS_FAILED \<Longrightarrow> st \<noteq> JOB_STATUS_CANCELED \<Longrightarrow> st \<noteq> JOB_STATUS_LOST \<Longrightarrow>
   jobStatusFromProto st = StatusPending"
  by (simp add: jobStatusFromProto_def)

lemma handleJobStatus_pending_report:
  "jobStatusFromProto (status st) = StatusPending \<Longrightarrow> handleJobStatus c g agentConn envelope st = g"
  by (simp add: handleJobStatus_def Let_def no_transition_to_pending Status_distinct split: sum.splits)

text \<open>
  Claim C10. A JobStatus whose status tag is none of ASSIGNED, RUNNING, SUCCEEDED, FAILED,
  CANCELED, LOST (the UNKNOWN tag and every number this build does not know) is mapped to
  PENDING; no status can move to PENDING; and the handler returns the gateway as it was:
  job store, registry and queue are untouched.
\<close>

theorem unrecognized_status_changes_nothing:
  assumes "status st \<noteq> JOB_STATUS_ASSIGNED" and "status st \<noteq> JOB_STATUS_RUNNING"
    and "status st \<noteq> JOB_STATUS_SUCCEEDED" and "status st \<noteq> JOB_STATUS_FAILED"
    and "status st \<noteq> JOB_STATUS_CANCELED" and "status st \<noteq> JOB_STATUS_LOST"
  shows "jobStatusFromProto (status st) = StatusPending
       \<and> (\<forall>s. \<not> CanTransitionTo s StatusPending)
       \<and> handleJobStatus c g agentConn envelope st = g"
proof -
  have p: "jobStatusFromProto (status st) = StatusPending"
    using assms by (rule jobStatusFromProto_unknown)
  from p handleJobStatus_pending_report [OF p] no_transition_to_pending show ?thesis
    by blast
qed

theorem unrecognized_status_changes_nothing_witness:
  "jobStatusFromProto 7 = StatusPending
   \<and> handleJobStatus statusCallsOK
        (sampleGateway 1 [''J1'' \<mapsto> sampleJob ''J1'' StatusRunning ''A1''] [])
        sampleConn
        (sampleEnvelope (Envelope_JobStatus (sampleReport ''J1'' 7 [] ''out'')))
        (sampleReport ''J1'' 7 [] ''out'')
     = sampleGateway 1 [''J1'' \<mapsto> sampleJob ''J1'' StatusRunning ''A1''] []"
  using unrecognized_status_changes_nothing
          [of "sampleReport ''J1'' 7 [] ''out''" statusCallsOK
              "sampleGateway 1 [''J1'' \<mapsto> sampleJob ''J1'' StatusRunning ''A1''] []"
              sampleConn
              "sampleEnvelope (Envelope_JobStatus (sampleReport ''J1'' 7 [] ''out''))"]
  by (simp add: sampleReport_def JOB_STATUS_ASSIGNED_def JOB_STATUS_RUNNING_def
        JOB_STATUS_SUCCEEDED_def JOB_STATUS_FAILED_def JOB_STATUS_CANCELED_def JOB_STATUS_LOST_def)

section \<open>Backoff of the pull loop\<close>

lemma min_duration_bounds:
  "minBackoff \<le> b \<Longrightarrow> minBackoff \<le> min_duration (b * 2) maxBackoff \<and> min_duration (b * 2) maxBackoff \<le> maxBackoff"
  by (simp add: min_duration_def minBackoff_def maxBackoff_def second_def millisecond_def)

lemma jobRequestLoop_from_bounds:
  "minBackoff \<le> b \<Longrightarrow> b \<le> maxBackoff \<Longrightarrow>
     minBackoff \<le> jobRequestLoop_from b turns \<and> jobRequestLoop_from b turns \<le> maxBackoff"
proof (induction turns arbitrary: b)
  case Nil
  then show ?case by simp
next
  case (Cons t rest)
  have m: "minBackoff \<le> maxBackoff"
    by (simp add: minBackoff_def maxBackoff_def second_def millisecond_def)
  show ?case
  proof (cases "fired t")
    case StopChan
    with Cons.prems show ?thesis by simp
  next
    case RequestJobChan
    with Cons.prems Cons.IH [of b] Cons.IH [of minBackoff] m show ?thesis by simp
  next
    case TimeAfter
    with Cons.prems Cons.IH [of "min_duration (b * 2) maxBackoff"]
      Cons.IH [of "min_duration (minBackoff * 2) maxBackoff"] Cons.IH [of minBackoff]
      min_duration_bounds [of b] min_duration_bounds [of minBackoff] m
    show ?thesis by (simp add: Let_def)
  qed
qed

text \<open>
  Claim C9, as the code has it. The backoff starts at 500 ms, its minimum is 500 ms and its
  cap 30 s, and it stays between the two whatever happens. When the timer fires and the
  agent cannot accept a job, the backoff is doubled up to the cap; when the immediate
  trigger fires and the agent cannot accept a job, it is left as it is; when a RequestJob
  frame is sent successfully (after either), it is reset to the minimum.
\<close>

theorem jobRequestLoop_backoff:
  "jobRequestLoop [] = 500 * millisecond
   \<and> minBackoff = 500 * millisecond \<and> maxBackoff = 30 * second
   \<and> minBackoff \<le> jobRequestLoop turns \<and> jobRequestLoop turns \<le> maxBackoff
   \<and> (fired t = TimeAfter \<and> \<not> canAcceptJob t \<longrightarrow>
        jobRequestLoop_from b (t # rest) = jobRequestLoop_from (min (b * 2) maxBackoff) rest)
   \<and> (fired t = RequestJobChan \<and> \<not> canAcceptJob t \<longrightarrow>
        jobRequestLoop_from b (t # rest) = jobRequestLoop_from b rest)
   \<and> (fired t \<noteq> StopChan \<and> canAcceptJob t \<and> \<not> sendRequestJob_err t \<longrightarrow>
        jobRequestLoop_from b (t # rest) = jobRequestLoop_from minBackoff rest)"
proof -
  have i: "minBackoff \<le> 500 * millisecond" "500 * millisecond \<le> maxBackoff"
    by (simp_all add: minBackoff_def maxBackoff_def second_def millisecond_def)
  have bounds: "minBackoff \<le> jobRequestLoop turns \<and> jobRequestLoop turns \<le> maxBackoff"
    unfolding jobRequestLoop_def using i by (rule jobRequestLoop_from_bounds)
  have md: "min_duration (b * 2) maxBackoff = min (b * 2) maxBackoff"
    by (simp add: min_duration_def min_def)
  have succ: "fired t \<noteq> StopChan \<and> canAcceptJob t \<and> \<not> sendRequestJob_err t \<longrightarrow>
        jobRequestLoop_from b (t # rest) = jobRequestLoop_from minBackoff rest"
    by (cases "fired t") (simp_all add: Let_def)
  have init: "jobRequestLoop [] = 500 * millisecond"
    by (simp add: jobRequestLoop_def)
  have lim: "minBackoff = 500 * millisecond" "maxBackoff = 30 * second"
    by (simp_all add: minBackoff_def maxBackoff_def)
  have timer: "fired t = TimeAfter \<and> \<not> canAcceptJob t \<longrightarrow>
        jobRequestLoop_from b (t # rest) = jobRequestLoop_from (min (b * 2) maxBackoff) rest"
    by (simp add: md)
  have trig: "fired t = RequestJobChan \<and> \<not> canAcceptJob t \<longrightarrow>
        jobRequestLoop_from b (t # rest) = jobRequestLoop_from b rest"
    by simp
  from init lim bounds timer trig succ show ?thesis
    by blast
qed

theorem jobRequestLoop_backoff_witness:
  "jobRequestLoop [\<lparr>fired = TimeAfter, canAcceptJob = False, sendRequestJob_err = False\<rparr>]
     = 1 * second
   \<and> jobRequestLoop_from (8 * second)
        [\<lparr>fired = RequestJobChan, canAcceptJob = False, sendRequestJob_err = False\<rparr>]
     = 8 * second
   \<and> jobRequestLoop_from (8 * second)
        [\<lparr>fired = TimeAfter, canAcceptJob = True, sendRequestJob_err = False\<rparr>]
     = 500 * millisecond"
  using jobRequestLoop_backoff
          [of "[]" "\<lparr>fired = TimeAfter, canAcceptJob = False, sendRequestJob_err = False\<rparr>"
              "500 * millisecond" "[]"]
        jobRequestLoop_backoff
          [of "[]" "\<lparr>fired = RequestJobChan, canAcceptJob = False, sendRequestJob_err = False\<rparr>"
              "8 * second" "[]"]
        jobRequestLoop_backoff
          [of "[]" "\<lparr>fired = TimeAfter, canAcceptJob = True, sendRequestJob_err = False\<rparr>"
              "8 * second" "[]"]
  by (simp add: jobRequestLoop_def second_def millisecond_def minBackoff_def maxBackoff_def)

text \<open>
  The claim as written fails twice. After a failed send on a timer turn the backoff is
  1 s whatever it was before (here 4 s, whose double is 8 s): it was reset to the minimum
  before the send. After an immediate trigger on which the agent cannot accept a job the
  backoff is not doubled.
\<close>

theorem jobRequestLoop_backoff_counterexample:
  "jobRequestLoop_from (4 * second)
     [\<lparr>fired = TimeAfter, canAcceptJob = True, sendRequestJob_err = True\<rparr>] = 1 * second
   \<and> min (4 * second * 2) (30 * second) = 8 * second
   \<and> jobRequestLoop_from (4 * second)
     [\<lparr>fired = RequestJobChan, canAcceptJob = False, sendRequestJob_err = False\<rparr>] = 4 * second"
  by (simp add: min_duration_def minBackoff_def maxBackoff_def second_def millisecond_def Let_def)

section \<open>Duplicate terminal reports\<close>

lemma handleJobStatus_terminal:
  assumes "jobStore g (JobStatus.job_id st) = Some j" and "IsTerminal (Status j)"
  shows "handleJobStatus c g agentConn envelope st = g"
  using assms by (simp add: handleJobStatus_def Let_def Get_def split: sum.splits)

lemma sample_first_delivery:
  "handleJobStatus statusCallsOK
     (sampleGateway 1 [''J1'' \<mapsto> sampleJob ''J1'' StatusRunning ''A1''] [])
     sampleConn
     (sampleEnvelope (Envelope_JobStatus (sampleReport ''J1'' JOB_STATUS_SUCCEEDED [] ''out'')))
     (sampleReport ''J1'' JOB_STATUS_SUCCEEDED [] ''out'')
   = \<lparr>registry = [''A1'' \<mapsto> (sampleAgent ''A1'' 0)\<lparr>LastHeartbeat := 1\<rparr>],
      jobStore = [''J1'' \<mapsto> (sampleJob ''J1'' StatusSucceeded ''A1'')\<lparr>Stdout := ''out''\<rparr>],
      jobQueue = Some [], ossProvider = sampleProvider\<rparr>"
  by (simp add: handleJobStatus_def Let_def sampleGateway_def sampleConn_def sampleEnvelope_def
        sampleReport_def statusCallsOK_def sampleJob_def sampleAgent_def Get_def IsValid_def
        IsTerminal_def jobStatusFromProto_def JOB_STATUS_ASSIGNED_def JOB_STATUS_RUNNING_def
        JOB_STATUS_SUCCEEDED_def Status_defs UpdateStdoutStderr_def UpdateStatus_def
        CanTransitionTo_def sql_update_def decrementRunningJobs_def GetAgent_def
        UpdateHeartbeat_def second_def)

text \<open>
  Claim C6. When a first delivery of a JobStatus report has left the job in a terminal
  status, delivering the same report again (whatever the database and the clock do the
  second time) returns the gateway exactly as the first delivery left it: no write to the
  job store, no capacity decrement in the registry.
\<close>

theorem duplicate_terminal_report_ignored:
  assumes "jobStore (handleJobStatus c1 g0 agentConn envelope st) (JobStatus.job_id st) = Some j"
    and "IsTerminal (Status j)"
  shows "handleJobStatus c2 (handleJobStatus c1 g0 agentConn envelope st) agentConn envelope st
           = handleJobStatus c1 g0 agentConn envelope st"
  using assms by (rule handleJobStatus_terminal)

theorem duplicate_terminal_report_ignored_witness:
  "map_option Status
     (jobStore
        (handleJobStatus statusCallsOK
          (sampleGateway 1 [''J1'' \<mapsto> sampleJob ''J1'' StatusRunning ''A1''] []) sampleConn
          (sampleEnvelope (Envelope_JobStatus (sampleReport ''J1'' JOB_STATUS_SUCCEEDED [] ''out'')))
          (sampleReport ''J1'' JOB_STATUS_SUCCEEDED [] ''out'')) ''J1'')
     = Some StatusSucceeded
   \<and> handleJobStatus statusCallsOK
        (handleJobStatus statusCallsOK
          (sampleGateway 1 [''J1'' \<mapsto> sampleJob ''J1'' StatusRunning ''A1''] []) sampleConn
          (sampleEnvelope (Envelope_JobStatus (sampleReport ''J1'' JOB_STATUS_SUCCEEDED [] ''out'')))
          (sampleReport ''J1'' JOB_STATUS_SUCCEEDED [] ''out''))
        sampleConn
        (sampleEnvelope (Envelope_JobStatus (sampleReport ''J1'' JOB_STATUS_SUCCEEDED [] ''out'')))
        (sampleReport ''J1'' JOB_STATUS_SUCCEEDED [] ''out'')
     = handleJobStatus statusCallsOK
          (sampleGateway 1 [''J1'' \<mapsto> sampleJob ''J1'' StatusRunning ''A1''] []) sampleConn
          (sampleEnvelope (Envelope_JobStatus (sampleReport ''J1'' JOB_STATUS_SUCCEEDED [] ''out'')))
          (sampleReport ''J1'' JOB_STATUS_SUCCEEDED [] ''out'')"
proof -
  let ?st = "sampleReport ''J1'' JOB_STATUS_SUCCEEDED [] ''out''"
  let ?g1 = "handleJobStatus statusCallsOK
          (sampleGateway 1 [''J1'' \<mapsto> sampleJob ''J1'' StatusRunning ''A1''] []) sampleConn
          (sampleEnvelope (Envelope_JobStatus ?st)) ?st"
  let ?j = "(sampleJob ''J1'' StatusSucceeded ''A1'')\<lparr>Stdout := ''out''\<rparr>"
  have row: "jobStore ?g1 (JobStatus.job_id ?st) = Some ?j"
    by (simp add: sample_first_delivery) (simp add: sampleReport_def)
  have fin: "IsTerminal (Status ?j)"
    by (simp add: sampleJob_def IsTerminal_def)
  have st: "map_option Status (jobStore ?g1 ''J1'') = Some StatusSucceeded"
    by (simp add: sample_first_delivery) (simp add: sampleJob_def)
  from st duplicate_terminal_report_ignored [OF row fin, of statusCallsOK] show ?thesis
    by blast
qed

section \<open>Output key check on SUCCEEDED\<close>

lemma UpdateStdoutStderr_row:
  "tbl jobID = Some j \<Longrightarrow>
     \<exists>j'. snd (UpdateStdoutStderr ok tbl jobID so se) jobID = Some j'
        \<and> Status j' = Status j \<and> OutputKey j' = OutputKey j"
  by (simp add: UpdateStdoutStderr_def sql_update_def)

lemma UpdateStatus_ok_row:
  "tbl jobID = Some j \<Longrightarrow> IsValid (Status j) \<Longrightarrow> IsValid t \<Longrightarrow> CanTransitionTo (Status j) t \<Longrightarrow>
     UpdateStatus True True tbl jobID t = (None, tbl(jobID \<mapsto> j\<lparr>Status := t\<rparr>))"
  by (simp add: UpdateStatus_def Get_def sql_update_def)

lemma decrementRunningJobs_count:
  "map_option RunningJobs (decrementRunningJobs now reg agentID agentID)
     = map_option (\<lambda>a. if now - LastHeartbeat a < 60 * second \<and> RunningJobs a > 0
                         then RunningJobs a - 1 else RunningJobs a) (reg agentID)"
  by (auto simp add: decrementRunningJobs_def GetAgent_def UpdateHeartbeat_def split: option.splits)

text \<open>
  Claim C4, as the code has it. For a SUCCEEDED report from the job's assigned agent with
  matching attempt id on a RUNNING job (the database executing the read and the status
  write): if the reported output key is non-empty and differs from the stored one, the job
  becomes FAILED, otherwise SUCCEEDED; the stored output key is unchanged either way; and
  the sender's running-jobs count goes down by one when the registry reports the agent
  online (last heartbeat less than 60 s ago) with a positive count, and is unchanged
  otherwise.
\<close>

theorem succeeded_report_output_key_check:
  assumes "AgentId envelope = agentID" and "agentID \<noteq> []"
    and "AgentConnection.AgentID agentConn = agentID"
    and "JobStatus.job_id st = jobID" and "jobID \<noteq> []"
    and "status st = JOB_STATUS_SUCCEEDED" and "JobStatus.attempt_id st = AttemptID j"
    and "jobStore g jobID = Some j" and "AssignedAgentID j = agentID"
    and "Status j = StatusRunning"
    and "js_get_ok c" and "js_status_query_ok c" and "js_status_exec_ok c"
  shows "(let g' = handleJobStatus c g agentConn envelope st;
              reported = JobStatus.output_key st
          in map_option Status (jobStore g' jobID)
               = Some (if reported \<noteq> [] \<and> reported \<noteq> OutputKey j then StatusFailed
                       else StatusSucceeded)
           \<and> map_option OutputKey (jobStore g' jobID) = Some (OutputKey j)
           \<and> map_option RunningJobs (registry g' agentID)
               = map_option (\<lambda>a. if js_now c - LastHeartbeat a < 60 * second \<and> RunningJobs a > 0
                                   then RunningJobs a - 1 else RunningJobs a)
                   (registry g agentID))"
proof -
  let ?tbl1 = "snd (UpdateStdoutStderr (js_stdout_ok c) (jobStore g) jobID (stdout st) (stderr st))"
  obtain j' where j': "?tbl1 jobID = Some j'" "Status j' = StatusRunning" "OutputKey j' = OutputKey j"
    using UpdateStdoutStderr_row [of "jobStore g" jobID j "js_stdout_ok c" "stdout st" "stderr st"]
      assms(8,10) by auto
  have v: "IsValid (Status j)" "IsValid (Status j')"
    using assms(10) j'(2) by (simp_all add: IsValid_def)
  have get: "Get True (jobStore g) jobID = Inr j"
    using assms(8) v by (simp add: Get_def)
  have nt: "\<not> IsTerminal (Status j)"
    using assms(10) by (simp add: IsTerminal_def Status_defs)
  have tag: "jobStatusFromProto (status st) = StatusSucceeded"
    using assms(6)
    by (simp add: jobStatusFromProto_def JOB_STATUS_SUCCEEDED_def JOB_STATUS_ASSIGNED_def
          JOB_STATUS_RUNNING_def)
  have upd: "UpdateStatus True True ?tbl1 jobID t = (None, ?tbl1(jobID \<mapsto> j'\<lparr>Status := t\<rparr>))"
    if "t = StatusFailed \<or> t = StatusSucceeded" for t
    using that j' v(2)
    by (intro UpdateStatus_ok_row) (auto simp add: IsValid_def CanTransitionTo_def Status_defs)
  have ne: "StatusSucceeded \<noteq> StatusRunning"
    by (simp add: Status_defs)
  show ?thesis
    using assms(1-7,9,11-13) get nt tag ne j'(3)
    by (simp add: handleJobStatus_def Let_def IsValid_def upd decrementRunningJobs_count)
qed

theorem succeeded_report_output_key_check_witness:
  "map_option Status
     (jobStore
        (handleJobStatus statusCallsOK
           (sampleGateway 1
              [''J3'' \<mapsto> (sampleJob ''J3'' StatusRunning ''A1'')\<lparr>OutputKey := ''jobs/J3/1/output.bin''\<rparr>] [])
           sampleConn
           (sampleEnvelope (Envelope_JobStatus
              (sampleReport ''J3'' JOB_STATUS_SUCCEEDED ''jobs/J3/1/wrong.bin'' [])))
           (sampleReport ''J3'' JOB_STATUS_SUCCEEDED ''jobs/J3/1/wrong.bin'' [])) ''J3'')
     = Some StatusFailed
   \<and> map_option OutputKey
     (jobStore
        (handleJobStatus statusCallsOK
           (sampleGateway 1
              [''J3'' \<mapsto> (sampleJob ''J3'' StatusRunning ''A1'')\<lparr>OutputKey := ''jobs/J3/1/output.bin''\<rparr>] [])
           sampleConn
           (sampleEnvelope (Envelope_JobStatus
              (sampleReport ''J3'' JOB_STATUS_SUCCEEDED ''jobs/J3/1/wrong.bin'' [])))
           (sampleReport ''J3'' JOB_STATUS_SUCCEEDED ''jobs/J3/1/wrong.bin'' [])) ''J3'')
     = Some ''jobs/J3/1/output.bin''
   \<and> map_option RunningJobs
     (registry
        (handleJobStatus statusCallsOK
           (sampleGateway 1
              [''J3'' \<mapsto> (sampleJob ''J3'' StatusRunning ''A1'')\<lparr>OutputKey := ''jobs/J3/1/output.bin''\<rparr>] [])
           sampleConn
           (sampleEnvelope (Envelope_JobStatus
              (sampleReport ''J3'' JOB_STATUS_SUCCEEDED ''jobs/J3/1/wrong.bin'' [])))
           (sampleReport ''J3'' JOB_STATUS_SUCCEEDED ''jobs/J3/1/wrong.bin'' [])) ''A1'')
     = Some 0"
  using succeeded_report_output_key_check
    [of "sampleEnvelope (Envelope_JobStatus
              (sampleReport ''J3'' JOB_STATUS_SUCCEEDED ''jobs/J3/1/wrong.bin'' []))"
        "''A1''" sampleConn
        "sampleReport ''J3'' JOB_STATUS_SUCCEEDED ''jobs/J3/1/wrong.bin'' []" "''J3''"
        "(sampleJob ''J3'' StatusRunning ''A1'')\<lparr>OutputKey := ''jobs/J3/1/output.bin''\<rparr>"
        "sampleGateway 1
              [''J3'' \<mapsto> (sampleJob ''J3'' StatusRunning ''A1'')\<lparr>OutputKey := ''jobs/J3/1/output.bin''\<rparr>] []"
        statusCallsOK]
  by (simp add: sample_defs Let_def second_def)

text \<open>
  The claim as written covers every non-terminal job: for a job that is still ASSIGNED, a
  SUCCEEDED report with an empty output key does not set the job to SUCCEEDED (the store
  rejects ASSIGNED \<rightarrow> SUCCEEDED); the job stays ASSIGNED.
\<close>

theorem succeeded_report_output_key_check_counterexample:
  "map_option Status
     (jobStore
        (handleJobStatus statusCallsOK
           (sampleGateway 1 [''J3'' \<mapsto> sampleJob ''J3'' StatusAssigned ''A1''] [])
           sampleConn
           (sampleEnvelope (Envelope_JobStatus (sampleReport ''J3'' JOB_STATUS_SUCCEEDED [] [])))
           (sampleReport ''J3'' JOB_STATUS_SUCCEEDED [] [])) ''J3'')
     = Some StatusAssigned
   \<and> \<not> IsTerminal StatusAssigned
   \<and> StatusAssigned \<noteq> StatusSucceeded"
  by (simp add: handleJobStatus_def Let_def sample_defs store_defs IsValid_def
        IsTerminal_def jobStatusFromProto_def tag_defs Status_defs CanTransitionTo_def)

section \<open>Reports with an unreachable status\<close>

lemma UpdateStatus_rejected:
  assumes "tbl jobID = Some j'" and "\<not> CanTransitionTo (Status j') t"
  shows "\<exists>err. UpdateStatus q e tbl jobID t = (Some err, tbl)"
  using assms by (simp add: UpdateStatus_def Get_def)

lemma UpdateStdoutStderr_cases:
  assumes "tbl jobID = Some j"
  shows "snd (UpdateStdoutStderr ok tbl jobID so se)
           = (if ok then tbl(jobID \<mapsto> j\<lparr>Stdout := so, Stderr := se\<rparr>) else tbl)"
  using assms by (simp add: UpdateStdoutStderr_def sql_update_def)

lemma Get_Inr: "Get ok tbl jobID = Inr x \<Longrightarrow> ok \<and> tbl jobID = Some x \<and> IsValid (Status x)"
  by (simp add: Get_def split: if_splits option.splits)

text \<open>
  Claim C5, as the code has it. For a JobStatus report from the assigned agent with
  matching attempt id on a non-terminal job, whose status is not reachable from the job's
  current status, the report is ignored: the registry and the queue are unchanged, no
  other job is touched, and the job keeps its status, assignment, attempt id, output key,
  message and every other field apart from stdout and stderr. A report that is not
  RUNNING, SUCCEEDED or FAILED, and a RUNNING report with empty stdout and stderr, change
  nothing at all, stdout and stderr included. A RUNNING report that carries stdout or
  stderr changes nothing but these two fields, which it persists as a progress update
  (when the database executes the read and the write). Nothing is stated about the stdout
  and stderr of the job after a rejected SUCCEEDED or FAILED report.
\<close>

theorem unreachable_status_report:
  assumes "AgentId envelope = agentID" and "agentID \<noteq> []"
    and "AgentConnection.AgentID agentConn = agentID"
    and "JobStatus.job_id st = jobID" and "jobID \<noteq> []"
    and "JobStatus.attempt_id st = AttemptID j"
    and "jobStore g jobID = Some j" and "AssignedAgentID j = agentID"
    and "\<not> IsTerminal (Status j)"
    and "\<not> CanTransitionTo (Status j) (jobStatusFromProto (status st))"
  shows "(let g' = handleJobStatus c g agentConn envelope st;
              newStatus = jobStatusFromProto (status st);
              written = (jobStore g)(jobID \<mapsto> j\<lparr>Stdout := stdout st, Stderr := stderr st\<rparr>)
          in registry g' = registry g \<and> jobQueue g' = jobQueue g
           \<and> (\<forall>k. k \<noteq> jobID \<longrightarrow> jobStore g' k = jobStore g k)
           \<and> map_option (\<lambda>row. row\<lparr>Stdout := Stdout j, Stderr := Stderr j\<rparr>) (jobStore g' jobID)
               = Some j
           \<and> (newStatus \<noteq> StatusRunning \<and> newStatus \<noteq> StatusSucceeded \<and>
                newStatus \<noteq> StatusFailed \<longrightarrow> g' = g)
           \<and> (newStatus = StatusRunning \<and> stdout st = [] \<and> stderr st = [] \<longrightarrow> g' = g)
           \<and> (newStatus = StatusRunning \<and> (stdout st \<noteq> [] \<or> stderr st \<noteq> [])
                \<longrightarrow> jobStore g' = jobStore g \<or> jobStore g' = written)
           \<and> (newStatus = StatusRunning \<and> (stdout st \<noteq> [] \<or> stderr st \<noteq> []) \<and>
                js_get_ok c \<and> js_stdout_ok c \<and> IsValid (Status j) \<longrightarrow> jobStore g' = written))"
proof -
  let ?new = "jobStatusFromProto (status st)"
  let ?w = "(jobStore g)(jobID \<mapsto> j\<lparr>Stdout := stdout st, Stderr := stderr st\<rparr>)"
  let ?tbl1 = "snd (UpdateStdoutStderr (js_stdout_ok c) (jobStore g) jobID (stdout st) (stderr st))"
  have tbl1: "?tbl1 = (if js_stdout_ok c then ?w else jobStore g)"
    using assms(7) by (rule UpdateStdoutStderr_cases)
  have rej0: "\<exists>err. UpdateStatus q e (jobStore g) jobID ?new = (Some err, jobStore g)" for q e
    using assms(7,10) by (rule UpdateStatus_rejected)
  have rejw: "\<exists>err. UpdateStatus q e ?w jobID ?new = (Some err, ?w)" for q e
    using assms(10) by (intro UpdateStatus_rejected [where j' = "j\<lparr>Stdout := stdout st, Stderr := stderr st\<rparr>"]) simp_all
  have rej1: "\<exists>err. UpdateStatus q e ?tbl1 jobID ?new = (Some err, ?tbl1)" for q e
    using rej0 [of q e] rejw [of q e] by (simp add: tbl1)
  obtain e0 where e0: "UpdateStatus (js_status_query_ok c) (js_status_exec_ok c) (jobStore g) jobID ?new
      = (Some e0, jobStore g)"
    using rej0 by blast
  obtain e1 where e1: "UpdateStatus (js_status_query_ok c) (js_status_exec_ok c) ?tbl1 jobID ?new
      = (Some e1, ?tbl1)"
    using rej1 by blast
  have sf: "CanTransitionTo s StatusFailed = CanTransitionTo s StatusSucceeded" for s
    by (simp add: CanTransitionTo_def Status_distinct)
  have rejF: "\<exists>err. UpdateStatus q e ?tbl1 jobID StatusFailed = (Some err, ?tbl1)"
    if "?new = StatusSucceeded" for q e
  proof -
    from that assms(10) have n: "\<not> CanTransitionTo (Status j) StatusFailed"
      by (simp add: sf)
    have a: "\<exists>err. UpdateStatus q e (jobStore g) jobID StatusFailed = (Some err, jobStore g)"
      using assms(7) n by (rule UpdateStatus_rejected)
    have b: "\<exists>err. UpdateStatus q e ?w jobID StatusFailed = (Some err, ?w)"
      using n by (intro UpdateStatus_rejected [where j' = "j\<lparr>Stdout := stdout st, Stderr := stderr st\<rparr>"]) simp_all
    from a b show ?thesis by (simp add: tbl1)
  qed
  show ?thesis
  proof (cases "Get (js_get_ok c) (jobStore g) jobID")
    case (Inl err)
    then have "handleJobStatus c g agentConn envelope st = g"
      using assms(4) by (simp add: handleJobStatus_def Let_def)
    then show ?thesis
      using Inl assms(7) by (auto simp add: Let_def Get_def split: if_splits)
  next
    case (Inr x)
    have same: "j\<lparr>Stdout := Stdout j, Stderr := Stderr j\<rparr> = j"
      by simp
    from Inr assms(7) have x: "x = j" and ok: "js_get_ok c"
      using Get_Inr [OF Inr] by simp_all
    have pre: "handleJobStatus c g agentConn envelope st =
        (let newStatus = ?new in
         if \<not> IsValid newStatus then g
         else if newStatus = StatusRunning then
           (if stdout st \<noteq> [] \<or> stderr st \<noteq> [] then g\<lparr>jobStore := ?tbl1\<rparr> else g)
         else if newStatus = StatusSucceeded \<or> newStatus = StatusFailed then g\<lparr>jobStore := ?tbl1\<rparr>
         else g)"
    proof (cases "?new = StatusRunning")
      case True
      show ?thesis
        using assms(1-6,8,9) Inr x True e0 e1
        by (simp add: handleJobStatus_def Let_def)
    next
      case nr: False
      show ?thesis
      proof (cases "?new = StatusSucceeded")
        case True
        obtain e2 where e2: "UpdateStatus (js_status_query_ok c) (js_status_exec_ok c) ?tbl1 jobID
            StatusFailed = (Some e2, ?tbl1)"
          using rejF [OF True] by blast
        show ?thesis
          using assms(1-6,8,9) Inr x True e1 e2
          by (simp add: handleJobStatus_def Let_def Status_distinct)
      next
        case ns: False
        show ?thesis
        proof (cases "?new = StatusFailed")
          case True
          show ?thesis
            using assms(1-6,8,9) Inr x True e1
            by (simp add: handleJobStatus_def Let_def Status_distinct)
        next
          case nf: False
          show ?thesis
            using assms(1-6,8,9,10) Inr x nr ns nf
            by (simp add: handleJobStatus_def Let_def)
        qed
      qed
    qed
    have v: "IsValid (Status j)"
      using Get_Inr [OF Inr] x by simp
    show ?thesis
      unfolding pre Let_def tbl1 using ok v assms(7)
      by (simp add: Status_distinct IsValid_simps same)
  qed
qed

theorem unreachable_status_report_witness:
  "registry
     (handleJobStatus statusCallsOK
        (sampleGateway 1 [''J1'' \<mapsto> sampleJob ''J1'' StatusAssigned ''A1''] []) sampleConn
        (sampleEnvelope (Envelope_JobStatus (sampleReport ''J1'' JOB_STATUS_SUCCEEDED [] ''done'')))
        (sampleReport ''J1'' JOB_STATUS_SUCCEEDED [] ''done''))
     = registry (sampleGateway 1 [''J1'' \<mapsto> sampleJob ''J1'' StatusAssigned ''A1''] [])
   \<and> map_option Status
       (jobStore
         (handleJobStatus statusCallsOK
            (sampleGateway 1 [''J1'' \<mapsto> sampleJob ''J1'' StatusAssigned ''A1''] []) sampleConn
            (sampleEnvelope (Envelope_JobStatus (sampleReport ''J1'' JOB_STATUS_SUCCEEDED [] ''done'')))
            (sampleReport ''J1'' JOB_STATUS_SUCCEEDED [] ''done'')) ''J1'')
     = Some StatusAssigned
   \<and> handleJobStatus statusCallsOK
        (sampleGateway 0 [''J1'' \<mapsto> sampleJob ''J1'' StatusPending ''A1''] []) sampleConn
        (sampleEnvelope (Envelope_JobStatus (sampleReport ''J1'' JOB_STATUS_LOST [] ''x'')))
        (sampleReport ''J1'' JOB_STATUS_LOST [] ''x'')
     = sampleGateway 0 [''J1'' \<mapsto> sampleJob ''J1'' StatusPending ''A1''] []"
proof -
  let ?j = "sampleJob ''J1'' StatusAssigned ''A1''"
  let ?g = "sampleGateway 1 [''J1'' \<mapsto> ?j] []"
  let ?st = "sampleReport ''J1'' JOB_STATUS_SUCCEEDED [] ''done''"
  let ?e = "sampleEnvelope (Envelope_JobStatus ?st)"
  let ?g' = "handleJobStatus statusCallsOK ?g sampleConn ?e ?st"
  let ?p = "sampleJob ''J1'' StatusPending ''A1''"
  let ?h = "sampleGateway 0 [''J1'' \<mapsto> ?p] []"
  let ?lost = "sampleReport ''J1'' JOB_STATUS_LOST [] ''x''"
  let ?el = "sampleEnvelope (Envelope_JobStatus ?lost)"
  let ?f = "\<lambda>row. row\<lparr>Stdout := Stdout ?j, Stderr := Stderr ?j\<rparr>"
  have tagS: "jobStatusFromProto (status ?st) = StatusSucceeded"
    and tagL: "jobStatusFromProto (status ?lost) = StatusLost"
    by (simp_all add: sampleReport_def jobStatusFromProto_def tag_defs)
  have no1: "\<not> CanTransitionTo (Status ?j) (jobStatusFromProto (status ?st))"
    unfolding tagS by (simp add: sampleJob_def CanTransitionTo_def Status_distinct)
  have no2: "\<not> CanTransitionTo (Status ?p) (jobStatusFromProto (status ?lost))"
    unfolding tagL by (simp add: sampleJob_def CanTransitionTo_def Status_distinct)
  have nt: "\<not> IsTerminal (Status ?j)" "\<not> IsTerminal (Status ?p)"
    by (simp_all add: sampleJob_def IsTerminal_def Status_distinct)
  have p1: "AgentId ?e = ''A1''" "''A1'' \<noteq> []" "AgentConnection.AgentID sampleConn = ''A1''"
    "JobStatus.job_id ?st = ''J1''" "''J1'' \<noteq> []" "JobStatus.attempt_id ?st = AttemptID ?j"
    "jobStore ?g ''J1'' = Some ?j" "AssignedAgentID ?j = ''A1''"
    by (simp_all add: sample_defs)
  have "registry ?g' = registry ?g \<and> map_option ?f (jobStore ?g' ''J1'') = Some ?j"
    using unreachable_status_report [OF p1 nt(1) no1, of statusCallsOK]
    by (simp only: Let_def)
  then have r: "registry ?g' = registry ?g" and m: "map_option ?f (jobStore ?g' ''J1'') = Some ?j"
    by blast+
  have "map_option Status (jobStore ?g' ''J1'') = map_option Status (map_option ?f (jobStore ?g' ''J1''))"
    by (simp add: option.map_comp comp_def)
  also have "\<dots> = Some StatusAssigned"
    unfolding m by (simp add: sampleJob_def)
  finally have a: "map_option Status (jobStore ?g' ''J1'') = Some StatusAssigned" .
  have b: "handleJobStatus statusCallsOK ?h sampleConn ?el ?lost = ?h"
    using unreachable_status_report
      [of ?el "''A1''" sampleConn ?lost "''J1''" ?p ?h statusCallsOK] no2 nt(2) tagL
    by (simp add: Let_def Status_distinct) (simp add: sample_defs)
  from r a b show ?thesis by blast
qed

text \<open>
  The claim as written (the record is left entirely unchanged, stdout and stderr included)
  fails for a progress update: RUNNING reported with stdout for a job that is already
  RUNNING is not an edge of the table, and the reported stdout is stored (``Save
  stdout/stderr if provided (for progress updates)'').
\<close>

theorem unreachable_status_report_counterexample:
  "\<not> CanTransitionTo StatusRunning (jobStatusFromProto JOB_STATUS_RUNNING)
   \<and> map_option Stdout
        (jobStore (sampleGateway 1 [''J1'' \<mapsto> sampleJob ''J1'' StatusRunning ''A1''] []) ''J1'')
     = Some []
   \<and> map_option Stdout
       (jobStore
         (handleJobStatus statusCallsOK
            (sampleGateway 1 [''J1'' \<mapsto> sampleJob ''J1'' StatusRunning ''A1''] []) sampleConn
            (sampleEnvelope (Envelope_JobStatus (sampleReport ''J1'' JOB_STATUS_RUNNING [] ''50%'')))
            (sampleReport ''J1'' JOB_STATUS_RUNNING [] ''50%'')) ''J1'')
     = Some ''50%''"
  by (simp add: handleJobStatus_def Let_def sample_defs store_defs IsValid_def
        IsTerminal_def jobStatusFromProto_def tag_defs Status_defs CanTransitionTo_def)

text \<open>
  The \<^verbatim>\<open>StatusSucceeded\<close> and \<^verbatim>\<open>StatusFailed\<close> branches of \<^verbatim>\<open>handleJobStatus\<close> call
  \<^verbatim>\<open>UpdateStdoutStderr\<close> before \<^verbatim>\<open>UpdateStatus\<close> validates the transition, whereas the
  \<^verbatim>\<open>StatusCanceled\<close>, \<^verbatim>\<open>StatusLost\<close> and default branches check \<^verbatim>\<open>CanTransitionTo\<close>
  first. So a FAILED report for a job that is still ASSIGNED is rejected (the job stays
  ASSIGNED and the sender's capacity is not released) and yet its stdout replaces the
  stored one.
\<close>

lemma rejected_failed_report_overwrites_stdout:
  "\<not> CanTransitionTo StatusAssigned (jobStatusFromProto JOB_STATUS_FAILED)
   \<and> map_option Status
       (jobStore
         (handleJobStatus statusCallsOK
            (sampleGateway 1 [''J1'' \<mapsto> sampleJob ''J1'' StatusAssigned ''A1''] []) sampleConn
            (sampleEnvelope (Envelope_JobStatus (sampleReport ''J1'' JOB_STATUS_FAILED [] ''boom'')))
            (sampleReport ''J1'' JOB_STATUS_FAILED [] ''boom'')) ''J1'')
     = Some StatusAssigned
   \<and> map_option Stdout
        (jobStore (sampleGateway 1 [''J1'' \<mapsto> sampleJob ''J1'' StatusAssigned ''A1''] []) ''J1'')
     = Some []
   \<and> map_option Stdout
       (jobStore
         (handleJobStatus statusCallsOK
            (sampleGateway 1 [''J1'' \<mapsto> sampleJob ''J1'' StatusAssigned ''A1''] []) sampleConn
            (sampleEnvelope (Envelope_JobStatus (sampleReport ''J1'' JOB_STATUS_FAILED [] ''boom'')))
            (sampleReport ''J1'' JOB_STATUS_FAILED [] ''boom'')) ''J1'')
     = Some ''boom''"
  by (simp add: handleJobStatus_def Let_def sample_defs store_defs IsValid_def
        IsTerminal_def jobStatusFromProto_def tag_defs Status_defs CanTransitionTo_def)

section \<open>The dequeue loop of the dispatcher\<close>

lemma dequeueLoop_skip:
  assumes "attempt < maxDequeueAttempts" and "rj_dequeue_ok c attempt"
    and "\<not> foundPending c tbl attempt x"
  shows "dequeueLoop c tbl attempt (x # xs) jobID j
           = dequeueLoop c tbl (attempt + 1) xs x (lookedUp c tbl attempt x)"
  using assms
  by (subst dequeueLoop.simps)
     (simp add: Dequeue_def foundPending_def lookedUp_def split: sum.splits)

lemma dequeueLoop_found:
  assumes "attempt < maxDequeueAttempts" and "rj_dequeue_ok c attempt"
    and "foundPending c tbl attempt x"
  shows "dequeueLoop c tbl attempt (x # xs) jobID j = LoopDone xs x (tbl x)"
  using assms
  by (subst dequeueLoop.simps)
     (auto simp add: Dequeue_def foundPending_def Get_def split: sum.splits option.splits if_splits)

lemma dequeueLoop_exhausted:
  "\<not> attempt < maxDequeueAttempts \<Longrightarrow> dequeueLoop c tbl attempt q jobID j = LoopDone q jobID j"
  by (subst dequeueLoop.simps) simp

lemma dequeueLoop_empty:
  "dequeueLoop c tbl 0 [] jobID j = Returned []"
  by (subst dequeueLoop.simps) (simp add: Dequeue_def maxDequeueAttempts_def)

lemma dequeueLoop_stop:
  assumes "attempt < maxDequeueAttempts" and "q = [] \<or> \<not> rj_dequeue_ok c attempt"
  shows "dequeueLoop c tbl attempt q jobID j = Returned q"
  using assms by (subst dequeueLoop.simps) (auto simp add: Dequeue_def split: list.splits)

lemma dequeueLoop_skips:
  assumes "0 < k" and "attempt + k \<le> maxDequeueAttempts" and "k \<le> length q"
    and "\<forall>i<k. rj_dequeue_ok c (attempt + i) \<and> \<not> foundPending c tbl (attempt + i) (q ! i)"
  shows "dequeueLoop c tbl attempt q jobID j
           = dequeueLoop c tbl (attempt + k) (drop k q) (q ! (k - 1))
               (lookedUp c tbl (attempt + k - 1) (q ! (k - 1)))"
  using assms
proof (induction k arbitrary: attempt q jobID j)
  case 0
  then show ?case by simp
next
  case (Suc k)
  from Suc.prems(3) obtain x xs where q: "q = x # xs"
    by (cases q) auto
  from Suc.prems(4) have h0: "rj_dequeue_ok c attempt" "\<not> foundPending c tbl attempt x"
    using q by force+
  have step: "dequeueLoop c tbl attempt q jobID j
                = dequeueLoop c tbl (attempt + 1) xs x (lookedUp c tbl attempt x)"
    unfolding q using Suc.prems(2) h0 by (intro dequeueLoop_skip) simp_all
  show ?case
  proof (cases "k = 0")
    case True
    with step q show ?thesis by simp
  next
    case False
    have rest: "\<forall>i<k. rj_dequeue_ok c (attempt + 1 + i) \<and>
                  \<not> foundPending c tbl (attempt + 1 + i) (xs ! i)"
    proof (intro allI impI)
      fix i assume "i < k"
      then have "Suc i < Suc k" by simp
      with Suc.prems(4) have "rj_dequeue_ok c (attempt + Suc i) \<and>
          \<not> foundPending c tbl (attempt + Suc i) (q ! Suc i)"
        by blast
      then show "rj_dequeue_ok c (attempt + 1 + i) \<and>
          \<not> foundPending c tbl (attempt + 1 + i) (xs ! i)"
        by (simp add: q)
    qed
    have ih: "dequeueLoop c tbl (attempt + 1) xs x (lookedUp c tbl attempt x)
                = dequeueLoop c tbl (attempt + 1 + k) (drop k xs) (xs ! (k - 1))
                    (lookedUp c tbl (attempt + 1 + k - 1) (xs ! (k - 1)))"
      using False Suc.prems(2,3) rest q by (intro Suc.IH) simp_all
    from False have nth: "q ! (Suc k - 1) = xs ! (k - 1)"
      by (cases k) (simp_all add: q)
    show ?thesis
      unfolding step ih nth by (simp add: q)
  qed
qed

lemma dequeueLoop_queue:
  "(\<exists>k<maxDequeueAttempts - attempt. dequeueLoop c tbl attempt q jobID j = Returned (drop k q))
   \<or> (\<exists>k\<le>maxDequeueAttempts - attempt. \<exists>jobID' j'.
         dequeueLoop c tbl attempt q jobID j = LoopDone (drop k q) jobID' j')"
proof (induction c tbl attempt q jobID j rule: dequeueLoop.induct)
  case (1 c tbl attempt q jobID j)
  show ?case
  proof (cases "attempt < maxDequeueAttempts")
    case False
    then have "dequeueLoop c tbl attempt q jobID j = LoopDone (drop 0 q) jobID j"
      by (simp add: dequeueLoop_exhausted)
    then show ?thesis by blast
  next
    case lt: True
    show ?thesis
    proof (cases "Dequeue (rj_dequeue_ok c attempt) q")
      case (Pair r q')
      show ?thesis
      proof (cases r)
        case (Inl err)
        with Pair have q': "q' = q"
          by (auto simp add: Dequeue_def split: if_splits list.splits)
        have "dequeueLoop c tbl attempt q jobID j = Returned (drop 0 q)"
          using lt Pair Inl q' by (subst dequeueLoop.simps) simp
        moreover have "0 < maxDequeueAttempts - attempt"
          using lt by simp
        ultimately show ?thesis by blast
      next
        case (Inr x)
        with Pair have q: "q = x # q'"
          by (auto simp add: Dequeue_def split: if_splits list.splits)
        show ?thesis
        proof (cases "foundPending c tbl attempt x")
          case True
          have "dequeueLoop c tbl attempt q jobID j = LoopDone (drop 1 q) x (tbl x)"
            using lt Pair Inr True q
            by (subst dequeueLoop.simps)
               (auto simp add: foundPending_def Get_def split: sum.splits option.splits if_splits)
          moreover have "1 \<le> maxDequeueAttempts - attempt"
            using lt by simp
          ultimately show ?thesis by blast
        next
          case False
          let ?next = "dequeueLoop c tbl (attempt + 1) q' x (lookedUp c tbl attempt x)"
          have eq: "dequeueLoop c tbl attempt q jobID j = ?next"
            using lt Pair Inr False q
            by (subst dequeueLoop.simps)
               (simp add: foundPending_def lookedUp_def split: sum.splits)
          have ih: "(\<exists>k<maxDequeueAttempts - (attempt + 1). ?next = Returned (drop k q'))
              \<or> (\<exists>k\<le>maxDequeueAttempts - (attempt + 1). \<exists>jobID' j'.
                    ?next = LoopDone (drop k q') jobID' j')"
          proof (cases "Get (rj_get_ok c attempt) tbl x")
            case (Inl e)
            then have lu: "lookedUp c tbl attempt x = None"
              by (simp add: lookedUp_def)
            show ?thesis
              unfolding lu using "1.IH"(1) [OF lt Pair [symmetric] Inr Inl] by simp
          next
            case (Inr j')
            then have lu: "lookedUp c tbl attempt x = Some j'"
              by (simp add: lookedUp_def)
            from False Inr have np: "Status j' \<noteq> StatusPending"
              by (simp add: foundPending_def)
            show ?thesis
              unfolding lu using "1.IH"(2) [OF lt Pair [symmetric] \<open>r = Inr x\<close> Inr np] by simp
          qed
          have dr: "drop (Suc k) q = drop k q'" for k
            by (simp add: q)
          from ih show ?thesis
          proof
            assume "\<exists>k<maxDequeueAttempts - (attempt + 1). ?next = Returned (drop k q')"
            then obtain k where k: "k < maxDequeueAttempts - (attempt + 1)"
              "?next = Returned (drop k q')"
              by blast
            have "Suc k < maxDequeueAttempts - attempt"
              using k(1) by simp
            moreover have "dequeueLoop c tbl attempt q jobID j = Returned (drop (Suc k) q)"
              unfolding eq dr by (rule k(2))
            ultimately show ?thesis by blast
          next
            assume "\<exists>k\<le>maxDequeueAttempts - (attempt + 1). \<exists>jobID' j'.
                    ?next = LoopDone (drop k q') jobID' j'"
            then obtain k jobID' j' where k: "k \<le> maxDequeueAttempts - (attempt + 1)"
              "?next = LoopDone (drop k q') jobID' j'"
              by blast
            have "Suc k \<le> maxDequeueAttempts - attempt"
              using k(1) lt by simp
            moreover have "dequeueLoop c tbl attempt q jobID j = LoopDone (drop (Suc k) q) jobID' j'"
              unfolding eq dr by (rule k(2))
            ultimately show ?thesis by blast
          qed
        qed
      qed
    qed
  qed
qed

lemma not_found_lookedUp:
  "\<not> foundPending c tbl attempt x \<Longrightarrow>
     lookedUp c tbl attempt x = None
     \<or> (\<exists>j. lookedUp c tbl attempt x = Some j \<and> Status j \<noteq> StatusPending)"
  by (simp add: foundPending_def lookedUp_def split: sum.splits)

lemma handleRequestJob_admitted:
  assumes "agent_id req = [] \<or> agent_id req = AgentId envelope" and "AgentId envelope \<noteq> []"
    and "GetAgent (rj_now c) (registry g) (AgentId envelope) = Some a"
    and "\<not> Paused a" and "RunningJobs a < MaxConcurrency a"
    and "jobQueue g = Some q"
  shows "dequeueLoop c (jobStore g) 0 q [] None = Returned q1 \<Longrightarrow>
           handleRequestJob c g agentConn envelope req = (g\<lparr>jobQueue := Some q1\<rparr>, agentConn)"
    and "dequeueLoop c (jobStore g) 0 q [] None = LoopDone q1 jobID None \<Longrightarrow>
           handleRequestJob c g agentConn envelope req = (g\<lparr>jobQueue := Some q1\<rparr>, agentConn)"
    and "dequeueLoop c (jobStore g) 0 q [] None = LoopDone q1 jobID (Some j) \<Longrightarrow>
           Status j \<noteq> StatusPending \<Longrightarrow>
           handleRequestJob c g agentConn envelope req = (g\<lparr>jobQueue := Some q1\<rparr>, agentConn)"
  using assms by (auto simp add: handleRequestJob_def Let_def)

lemma handleRequestJob_assigns:
  assumes "agent_id req = [] \<or> agent_id req = AgentId envelope" and "AgentId envelope \<noteq> []"
    and "GetAgent (rj_now c) (registry g) (AgentId envelope) = Some a"
    and "\<not> Paused a" and "RunningJobs a < MaxConcurrency a"
    and "jobQueue g = Some q"
    and "dequeueLoop c (jobStore g) 0 q [] None = LoopDone q1 jobID (Some j)"
    and "jobStore g jobID = Some j" and "Status j = StatusPending" and "1 \<le> AttemptID j"
    and "\<forall>key. \<exists>url. GenerateDownloadURL (ossProvider g) key = Inr url"
    and "\<forall>key. \<exists>url. GenerateUploadURL (ossProvider g) key = Inr url"
    and "rj_assign_ok c" and "rj_status_query_ok c" and "rj_status_exec_ok c"
    and "rj_output_ok c" and "rj_marshal_ok c"
  shows "(case handleRequestJob c g agentConn envelope req of
            (g', agentConn') \<Rightarrow>
               jobQueue g' = Some q1
             \<and> map_option Status (jobStore g' jobID) = Some StatusAssigned
             \<and> map_option AssignedAgentID (jobStore g' jobID) = Some (AgentId envelope)
             \<and> map_option RunningJobs (registry g' (AgentId envelope)) = Some (RunningJobs a + 1)
             \<and> (\<exists>m. SendChan agentConn' = SendChan agentConn @ [m]
                    \<and> (\<exists>p. Payload m = Envelope_JobAssigned p \<and> JobAssigned.job_id p = jobID)))"
proof -
  obtain u1 where u1: "GenerateDownloadURL (ossProvider g) (InputKey j) = Inr u1"
    using assms(11) by blast
  have u2: "\<exists>u. GenerateUploadURL (ossProvider g) key = Inr u" for key
    using assms(12) by blast
  have reg: "registry g (AgentId envelope) = Some a"
    using assms(3) by (simp add: GetAgent_def split: option.splits if_splits)
  have v: "IsValid StatusPending" "IsValid StatusAssigned"
    by (simp_all add: IsValid_def)
  have ct: "CanTransitionTo StatusPending StatusAssigned"
    by (simp add: CanTransitionTo_def)
  let ?key = "''jobs/'' @ jobID @ ''/'' @ intToString (if 1 < AttemptID j then AttemptID j else 1) @ ''/''
      @ ''output.'' @ (if HasPrefix (if OutputExtension j = [] then ''bin'' else OutputExtension j) ''.''
           then drop 1 (if OutputExtension j = [] then ''bin'' else OutputExtension j)
           else (if OutputExtension j = [] then ''bin'' else OutputExtension j))"
  obtain u where u: "GenerateUploadURL (ossProvider g) ?key = Inr u"
    using u2 by blast
  show ?thesis
    using assms(1-10,13-17) u1 u reg v ct
    by (simp add: handleRequestJob_def Let_def UpdateAssignment_def UpdateStatus_def
          UpdateOutput_def Get_def sql_update_def UpdateHeartbeat_def)
qed

text \<open>
  Claim C7. For a RequestJob that passes admission (consistent agent id, agent online, not
  paused, below its capacity, a queue present): the loop calls \<^verbatim>\<open>Dequeue\<close> at most 5
  times (it returns from the handler after fewer than 5 pulls and one pull that failed, or
  it is left after at most 5 pulls), the ids pulled leave the head of the queue and none
  of them is put back; with an empty queue the handler returns
  with nothing sent and nothing changed; ids that are not found in the store, or found with
  a status other than PENDING, are skipped; when, after \<open>k < 5\<close> skipped ids, the queue is
  empty or \<^verbatim>\<open>Dequeue\<close> fails, the handler returns with the \<open>k\<close> entries consumed, nothing
  sent and nothing else changed; the first id found PENDING (within the
  first 5 pulls) is the job the loop selects and the handler then assigns when the signer
  and the store answer; and when the first 5 pulls yield no PENDING job the handler returns
  with the 5 entries consumed, nothing sent and nothing else changed.
\<close>

theorem dequeue_loop_at_most_five:
  assumes "agent_id req = [] \<or> agent_id req = AgentId envelope" and "AgentId envelope \<noteq> []"
    and "GetAgent (rj_now c) (registry g) (AgentId envelope) = Some a"
    and "\<not> Paused a" and "RunningJobs a < MaxConcurrency a"
    and "jobQueue g = Some q"
  shows "((\<exists>k<5. dequeueLoop c (jobStore g) 0 q [] None = Returned (drop k q))
          \<or> (\<exists>k\<le>5. \<exists>jobID j.
                dequeueLoop c (jobStore g) 0 q [] None = LoopDone (drop k q) jobID j))
       \<and> (q = [] \<longrightarrow> handleRequestJob c g agentConn envelope req = (g, agentConn))
       \<and> (\<forall>k<5. k \<le> length q
                \<and> (\<forall>i<k. rj_dequeue_ok c i \<and> \<not> foundPending c (jobStore g) i (q ! i))
                \<and> (k = length q \<or> \<not> rj_dequeue_ok c k)
            \<longrightarrow> dequeueLoop c (jobStore g) 0 q [] None = Returned (drop k q)
              \<and> handleRequestJob c g agentConn envelope req
                  = (g\<lparr>jobQueue := Some (drop k q)\<rparr>, agentConn))
       \<and> (\<forall>k<5. k < length q \<and> (\<forall>i\<le>k. rj_dequeue_ok c i)
                \<and> (\<forall>i<k. \<not> foundPending c (jobStore g) i (q ! i))
                \<and> foundPending c (jobStore g) k (q ! k)
            \<longrightarrow> dequeueLoop c (jobStore g) 0 q [] None
                  = LoopDone (drop (Suc k) q) (q ! k) (jobStore g (q ! k))
              \<and> (\<forall>j. jobStore g (q ! k) = Some j \<and> 1 \<le> AttemptID j
                     \<and> (\<forall>key. \<exists>url. GenerateDownloadURL (ossProvider g) key = Inr url)
                     \<and> (\<forall>key. \<exists>url. GenerateUploadURL (ossProvider g) key = Inr url)
                     \<and> rj_assign_ok c \<and> rj_status_query_ok c \<and> rj_status_exec_ok c
                     \<and> rj_output_ok c \<and> rj_marshal_ok c
                   \<longrightarrow> (case handleRequestJob c g agentConn envelope req of
                          (g', agentConn') \<Rightarrow>
                             jobQueue g' = Some (drop (Suc k) q)
                           \<and> map_option Status (jobStore g' (q ! k)) = Some StatusAssigned
                           \<and> (\<exists>m p. SendChan agentConn' = SendChan agentConn @ [m]
                                  \<and> Payload m = Envelope_JobAssigned p
                                  \<and> JobAssigned.job_id p = q ! k))))
       \<and> (5 \<le> length q \<and> (\<forall>i<5. rj_dequeue_ok c i \<and> \<not> foundPending c (jobStore g) i (q ! i))
            \<longrightarrow> handleRequestJob c g agentConn envelope req
                  = (g\<lparr>jobQueue := Some (drop 5 q)\<rparr>, agentConn))"
proof -
  let ?tbl = "jobStore g"
  let ?loop = "dequeueLoop c ?tbl 0 q [] None"
  have bound: "(\<exists>k<5. ?loop = Returned (drop k q))
          \<or> (\<exists>k\<le>5. \<exists>jobID j. ?loop = LoopDone (drop k q) jobID j)"
    using dequeueLoop_queue [of 0 c ?tbl q "[]" None] by (simp add: maxDequeueAttempts_def)
  have empty: "handleRequestJob c g agentConn envelope req = (g, agentConn)" if "q = []"
  proof -
    have "?loop = Returned []"
      unfolding that by (rule dequeueLoop_empty)
    from handleRequestJob_admitted(1) [OF assms this] show ?thesis
      using assms(6) that by simp
  qed
  have stopped: "?loop = Returned (drop k q)
       \<and> handleRequestJob c g agentConn envelope req
           = (g\<lparr>jobQueue := Some (drop k q)\<rparr>, agentConn)"
    if k: "k < 5" "k \<le> length q"
      "\<forall>i<k. rj_dequeue_ok c i \<and> \<not> foundPending c ?tbl i (q ! i)"
      "k = length q \<or> \<not> rj_dequeue_ok c k" for k
  proof -
    have e: "drop k q = [] \<or> \<not> rj_dequeue_ok c k"
      using k(2,4) by auto
    have st: "dequeueLoop c ?tbl k (drop k q) jobID j = Returned (drop k q)" for jobID j
      using k(1) e by (intro dequeueLoop_stop) (simp_all add: maxDequeueAttempts_def)
    have l: "?loop = Returned (drop k q)"
    proof (cases "k = 0")
      case True
      with st [of "[]" None] show ?thesis by simp
    next
      case False
      have "?loop = dequeueLoop c ?tbl (0 + k) (drop k q) (q ! (k - 1))
                      (lookedUp c ?tbl (0 + k - 1) (q ! (k - 1)))"
        using False k by (intro dequeueLoop_skips) (simp_all add: maxDequeueAttempts_def)
      then show ?thesis by (simp add: st)
    qed
    from handleRequestJob_admitted(1) [OF assms l] l show ?thesis
      by simp
  qed
  have sel: "?loop = LoopDone (drop (Suc k) q) (q ! k) (?tbl (q ! k))"
    if k: "k < 5" "k < length q" "\<forall>i\<le>k. rj_dequeue_ok c i"
      "\<forall>i<k. \<not> foundPending c ?tbl i (q ! i)" "foundPending c ?tbl k (q ! k)" for k
  proof -
    have dk: "drop k q = q ! k # drop (Suc k) q"
      using k(2) by (simp add: Cons_nth_drop_Suc)
    have fnd: "dequeueLoop c ?tbl k (drop k q) jobID j = LoopDone (drop (Suc k) q) (q ! k) (?tbl (q ! k))"
      for jobID j
      unfolding dk using k(1,3,5) by (intro dequeueLoop_found) (simp_all add: maxDequeueAttempts_def)
    show ?thesis
    proof (cases "k = 0")
      case True
      with fnd [of "[]" None] show ?thesis by simp
    next
      case False
      have "?loop = dequeueLoop c ?tbl (0 + k) (drop k q) (q ! (k - 1))
                      (lookedUp c ?tbl (0 + k - 1) (q ! (k - 1)))"
        using False k by (intro dequeueLoop_skips) (simp_all add: maxDequeueAttempts_def)
      then show ?thesis by (simp add: fnd)
    qed
  qed
  have assigned: "(case handleRequestJob c g agentConn envelope req of
                          (g', agentConn') \<Rightarrow>
                             jobQueue g' = Some (drop (Suc k) q)
                           \<and> map_option Status (jobStore g' (q ! k)) = Some StatusAssigned
                           \<and> (\<exists>m p. SendChan agentConn' = SendChan agentConn @ [m]
                                  \<and> Payload m = Envelope_JobAssigned p
                                  \<and> JobAssigned.job_id p = q ! k))"
    if k: "k < 5" "k < length q" "\<forall>i\<le>k. rj_dequeue_ok c i"
      "\<forall>i<k. \<not> foundPending c ?tbl i (q ! i)" "foundPending c ?tbl k (q ! k)"
    and j: "?tbl (q ! k) = Some j" "1 \<le> AttemptID j"
      "\<forall>key. \<exists>url. GenerateDownloadURL (ossProvider g) key = Inr url"
      "\<forall>key. \<exists>url. GenerateUploadURL (ossProvider g) key = Inr url"
      "rj_assign_ok c" "rj_status_query_ok c" "rj_status_exec_ok c" "rj_output_ok c" "rj_marshal_ok c"
    for k j
  proof -
    have l: "?loop = LoopDone (drop (Suc k) q) (q ! k) (Some j)"
      using sel [OF k] j(1) by simp
    have p: "Status j = StatusPending"
      using k(5) j(1) by (simp add: foundPending_def Get_def split: if_splits)
    from handleRequestJob_assigns [OF assms l j(1) p j(2-9), of agentConn]
    show ?thesis by (auto split: prod.splits)
  qed
  have exhausted: "handleRequestJob c g agentConn envelope req
                  = (g\<lparr>jobQueue := Some (drop 5 q)\<rparr>, agentConn)"
    if h: "5 \<le> length q" "\<forall>i<5. rj_dequeue_ok c i \<and> \<not> foundPending c ?tbl i (q ! i)"
  proof -
    have "?loop = dequeueLoop c ?tbl (0 + 5) (drop 5 q) (q ! (5 - 1))
                      (lookedUp c ?tbl (0 + 5 - 1) (q ! (5 - 1)))"
      using h by (intro dequeueLoop_skips) (simp_all add: maxDequeueAttempts_def)
    then have l: "?loop = LoopDone (drop 5 q) (q ! 4) (lookedUp c ?tbl 4 (q ! 4))"
      by (simp add: dequeueLoop_exhausted maxDequeueAttempts_def)
    from h(2) have "\<not> foundPending c ?tbl 4 (q ! 4)"
      by simp
    from not_found_lookedUp [OF this] show ?thesis
    proof
      assume n: "lookedUp c ?tbl 4 (q ! 4) = None"
      from handleRequestJob_admitted(2) [OF assms l [unfolded n]] show ?thesis .
    next
      assume "\<exists>j. lookedUp c ?tbl 4 (q ! 4) = Some j \<and> Status j \<noteq> StatusPending"
      then obtain j where s: "lookedUp c ?tbl 4 (q ! 4) = Some j" "Status j \<noteq> StatusPending"
        by blast
      from handleRequestJob_admitted(3) [OF assms l [unfolded s(1)] s(2)] show ?thesis .
    qed
  qed
  show ?thesis
  proof (intro conjI allI impI)
    show "(\<exists>k<5. ?loop = Returned (drop k q))
          \<or> (\<exists>k\<le>5. \<exists>jobID j. ?loop = LoopDone (drop k q) jobID j)"
      by (rule bound)
  next
    assume "q = []"
    then show "handleRequestJob c g agentConn envelope req = (g, agentConn)"
      by (rule empty)
  next
    fix k :: nat
    assume "k < 5" and h: "k \<le> length q
                \<and> (\<forall>i<k. rj_dequeue_ok c i \<and> \<not> foundPending c (jobStore g) i (q ! i))
                \<and> (k = length q \<or> \<not> rj_dequeue_ok c k)"
    then have "?loop = Returned (drop k q)
       \<and> handleRequestJob c g agentConn envelope req
           = (g\<lparr>jobQueue := Some (drop k q)\<rparr>, agentConn)"
      by (intro stopped) simp_all
    then show "?loop = Returned (drop k q)"
      by (rule conjunct1)
  next
    fix k :: nat
    assume "k < 5" and h: "k \<le> length q
                \<and> (\<forall>i<k. rj_dequeue_ok c i \<and> \<not> foundPending c (jobStore g) i (q ! i))
                \<and> (k = length q \<or> \<not> rj_dequeue_ok c k)"
    then have "?loop = Returned (drop k q)
       \<and> handleRequestJob c g agentConn envelope req
           = (g\<lparr>jobQueue := Some (drop k q)\<rparr>, agentConn)"
      by (intro stopped) simp_all
    then show "handleRequestJob c g agentConn envelope req
                 = (g\<lparr>jobQueue := Some (drop k q)\<rparr>, agentConn)"
      by (rule conjunct2)
  next
    fix k :: nat
    assume "k < 5" and h: "k < length q \<and> (\<forall>i\<le>k. rj_dequeue_ok c i)
                \<and> (\<forall>i<k. \<not> foundPending c (jobStore g) i (q ! i))
                \<and> foundPending c (jobStore g) k (q ! k)"
    then show "?loop = LoopDone (drop (Suc k) q) (q ! k) (?tbl (q ! k))"
      by (intro sel) simp_all
  next
    fix k :: nat and j
    assume "k < 5" and h: "k < length q \<and> (\<forall>i\<le>k. rj_dequeue_ok c i)
                \<and> (\<forall>i<k. \<not> foundPending c (jobStore g) i (q ! i))
                \<and> foundPending c (jobStore g) k (q ! k)"
      and j: "jobStore g (q ! k) = Some j \<and> 1 \<le> AttemptID j
                     \<and> (\<forall>key. \<exists>url. GenerateDownloadURL (ossProvider g) key = Inr url)
                     \<and> (\<forall>key. \<exists>url. GenerateUploadURL (ossProvider g) key = Inr url)
                     \<and> rj_assign_ok c \<and> rj_status_query_ok c \<and> rj_status_exec_ok c
                     \<and> rj_output_ok c \<and> rj_marshal_ok c"
    then show "case handleRequestJob c g agentConn envelope req of
                          (g', agentConn') \<Rightarrow>
                             jobQueue g' = Some (drop (Suc k) q)
                           \<and> map_option Status (jobStore g' (q ! k)) = Some StatusAssigned
                           \<and> (\<exists>m p. SendChan agentConn' = SendChan agentConn @ [m]
                                  \<and> Payload m = Envelope_JobAssigned p
                                  \<and> JobAssigned.job_id p = q ! k)"
      by (intro assigned [of k j]) simp_all
  next
    assume "5 \<le> length q \<and> (\<forall>i<5. rj_dequeue_ok c i \<and> \<not> foundPending c (jobStore g) i (q ! i))"
    then show "handleRequestJob c g agentConn envelope req
                  = (g\<lparr>jobQueue := Some (drop 5 q)\<rparr>, agentConn)"
      by (intro exhausted) simp_all
  qed
qed

theorem dequeue_loop_at_most_five_witness:
  "dequeueLoop requestCallsOK
     [''Jstale'' \<mapsto> sampleJob ''Jstale'' StatusAssigned ''A2'',
      ''Jok'' \<mapsto> sampleJob ''Jok'' StatusPending []]
     0 [''Jstale'', ''Jok''] [] None
     = LoopDone [] ''Jok'' (Some (sampleJob ''Jok'' StatusPending []))
   \<and> handleRequestJob requestCallsOK (sampleGateway 0 Map.empty []) sampleConn
        (sampleEnvelope (Envelope_RequestJob \<lparr>agent_id = ''A1''\<rparr>)) \<lparr>agent_id = ''A1''\<rparr>
     = (sampleGateway 0 Map.empty [], sampleConn)
   \<and> handleRequestJob requestCallsOK
        (sampleGateway 0 [''Jstale'' \<mapsto> sampleJob ''Jstale'' StatusAssigned ''A2''] [''Jstale''])
        sampleConn
        (sampleEnvelope (Envelope_RequestJob \<lparr>agent_id = ''A1''\<rparr>)) \<lparr>agent_id = ''A1''\<rparr>
     = (sampleGateway 0 [''Jstale'' \<mapsto> sampleJob ''Jstale'' StatusAssigned ''A2''] [], sampleConn)"
proof -
  let ?tbl = "[''Jstale'' \<mapsto> sampleJob ''Jstale'' StatusAssigned ''A2'',
      ''Jok'' \<mapsto> sampleJob ''Jok'' StatusPending []]"
  let ?req = "\<lparr>agent_id = ''A1''\<rparr>"
  let ?env = "sampleEnvelope (Envelope_RequestJob ?req)"
  have adm: "agent_id ?req = [] \<or> agent_id ?req = AgentId ?env" "AgentId ?env \<noteq> []"
    "\<not> Paused (sampleAgent ''A1'' 0)"
    "RunningJobs (sampleAgent ''A1'' 0) < MaxConcurrency (sampleAgent ''A1'' 0)"
    by (simp_all add: sampleEnvelope_def sampleAgent_def)
  have ga: "GetAgent (rj_now requestCallsOK) (registry (sampleGateway 0 tbl q)) (AgentId ?env)
              = Some (sampleAgent ''A1'' 0)" for tbl q
    by (simp add: GetAgent_def request_defs second_def)
  have qs: "jobQueue (sampleGateway 0 tbl q) = Some q" for tbl q
    by (simp add: sampleGateway_def)
  note T1 = dequeue_loop_at_most_five
              [OF adm(1,2) ga adm(3,4) qs, of ?tbl "[''Jstale'', ''Jok'']" sampleConn]
  note T2 = dequeue_loop_at_most_five
              [OF adm(1,2) ga adm(3,4) qs, of Map.empty "[]" sampleConn]
  have f0: "\<not> foundPending requestCallsOK ?tbl 0 ''Jstale''"
    and f1: "foundPending requestCallsOK ?tbl 1 ''Jok''"
    by (simp_all add: foundPending_def Get_def requestCallsOK_def sampleJob_def IsValid_def
          Status_distinct)
  from T1 have "\<forall>k<5. k < length [''Jstale'', ''Jok''] \<and> (\<forall>i\<le>k. rj_dequeue_ok requestCallsOK i)
                \<and> (\<forall>i<k. \<not> foundPending requestCallsOK (jobStore (sampleGateway 0 ?tbl [''Jstale'', ''Jok''])) i ([''Jstale'', ''Jok''] ! i))
                \<and> foundPending requestCallsOK (jobStore (sampleGateway 0 ?tbl [''Jstale'', ''Jok''])) k ([''Jstale'', ''Jok''] ! k)
            \<longrightarrow> dequeueLoop requestCallsOK (jobStore (sampleGateway 0 ?tbl [''Jstale'', ''Jok''])) 0 [''Jstale'', ''Jok''] [] None
                  = LoopDone (drop (Suc k) [''Jstale'', ''Jok'']) ([''Jstale'', ''Jok''] ! k) (jobStore (sampleGateway 0 ?tbl [''Jstale'', ''Jok'']) ([''Jstale'', ''Jok''] ! k))"
    by blast
  then have "(1::nat) < 5 \<longrightarrow> 1 < length [''Jstale'', ''Jok''] \<and> (\<forall>i\<le>1. rj_dequeue_ok requestCallsOK i)
                \<and> (\<forall>i<1. \<not> foundPending requestCallsOK (jobStore (sampleGateway 0 ?tbl [''Jstale'', ''Jok''])) i ([''Jstale'', ''Jok''] ! i))
                \<and> foundPending requestCallsOK (jobStore (sampleGateway 0 ?tbl [''Jstale'', ''Jok''])) 1 ([''Jstale'', ''Jok''] ! 1)
            \<longrightarrow> dequeueLoop requestCallsOK (jobStore (sampleGateway 0 ?tbl [''Jstale'', ''Jok''])) 0 [''Jstale'', ''Jok''] [] None
                  = LoopDone (drop (Suc 1) [''Jstale'', ''Jok'']) ([''Jstale'', ''Jok''] ! 1) (jobStore (sampleGateway 0 ?tbl [''Jstale'', ''Jok'']) ([''Jstale'', ''Jok''] ! 1))"
    by (rule spec)
  then have a: "dequeueLoop requestCallsOK ?tbl 0 [''Jstale'', ''Jok''] [] None
     = LoopDone [] ''Jok'' (Some (sampleJob ''Jok'' StatusPending []))"
    using f0 f1 by (simp add: sampleGateway_def) (simp add: requestCallsOK_def)
  from T2 have b: "handleRequestJob requestCallsOK (sampleGateway 0 Map.empty []) sampleConn ?env ?req
     = (sampleGateway 0 Map.empty [], sampleConn)"
    by blast
  let ?tbl3 = "[''Jstale'' \<mapsto> sampleJob ''Jstale'' StatusAssigned ''A2'']"
  let ?g3 = "sampleGateway 0 ?tbl3 [''Jstale'']"
  note T3 = dequeue_loop_at_most_five
              [OF adm(1,2) ga adm(3,4) qs, of ?tbl3 "[''Jstale'']" sampleConn]
  have f3: "\<not> foundPending requestCallsOK ?tbl3 0 ''Jstale''"
    by (simp add: foundPending_def Get_def requestCallsOK_def sampleJob_def IsValid_def
          Status_distinct)
  from T3 have "\<forall>k<5. k \<le> length [''Jstale'']
                \<and> (\<forall>i<k. rj_dequeue_ok requestCallsOK i
                          \<and> \<not> foundPending requestCallsOK (jobStore ?g3) i ([''Jstale''] ! i))
                \<and> (k = length [''Jstale''] \<or> \<not> rj_dequeue_ok requestCallsOK k)
            \<longrightarrow> dequeueLoop requestCallsOK (jobStore ?g3) 0 [''Jstale''] [] None
                  = Returned (drop k [''Jstale''])
              \<and> handleRequestJob requestCallsOK ?g3 sampleConn ?env ?req
                  = (?g3\<lparr>jobQueue := Some (drop k [''Jstale''])\<rparr>, sampleConn)"
    by blast
  then have "(1::nat) < 5 \<longrightarrow> 1 \<le> length [''Jstale'']
                \<and> (\<forall>i<1. rj_dequeue_ok requestCallsOK i
                          \<and> \<not> foundPending requestCallsOK (jobStore ?g3) i ([''Jstale''] ! i))
                \<and> (1 = length [''Jstale''] \<or> \<not> rj_dequeue_ok requestCallsOK 1)
            \<longrightarrow> dequeueLoop requestCallsOK (jobStore ?g3) 0 [''Jstale''] [] None
                  = Returned (drop 1 [''Jstale''])
              \<and> handleRequestJob requestCallsOK ?g3 sampleConn ?env ?req
                  = (?g3\<lparr>jobQueue := Some (drop 1 [''Jstale''])\<rparr>, sampleConn)"
    by (rule spec)
  then have d: "handleRequestJob requestCallsOK ?g3 sampleConn ?env ?req
                  = (sampleGateway 0 ?tbl3 [], sampleConn)"
    using f3 by (simp add: sampleGateway_def) (simp add: requestCallsOK_def)
  from a b d show ?thesis by blast
qed

section \<open>Rollback of a failed dispatch\<close>

lemma dequeueLoop_first_pending:
  assumes "rj_dequeue_ok c 0" and "rj_get_ok c 0" and "tbl x = Some j"
    and "Status j = StatusPending"
  shows "dequeueLoop c tbl 0 (x # xs) jobID j0 = LoopDone xs x (Some j)"
proof -
  have "foundPending c tbl 0 x"
    using assms by (simp add: foundPending_def Get_def IsValid_def)
  then have "dequeueLoop c tbl 0 (x # xs) jobID j0 = LoopDone xs x (tbl x)"
    using assms(1) by (intro dequeueLoop_found) (simp_all add: maxDequeueAttempts_def)
  with assms(3) show ?thesis by simp
qed

text \<open>
  A failure before the status write is compensated as intended: with the assignment write,
  the status write or the signer failing, the job is PENDING and unowned afterwards, its id
  is back in the queue and nothing was sent.
\<close>

lemma dispatch_early_failures_keep_pending:
  "handleRequestJob (requestCallsOK\<lparr>rj_assign_ok := False\<rparr>)
     (sampleGateway 0 [''J5'' \<mapsto> sampleJob ''J5'' StatusPending []] [''J5'']) sampleConn
     (sampleEnvelope (Envelope_RequestJob \<lparr>agent_id = ''A1''\<rparr>)) \<lparr>agent_id = ''A1''\<rparr>
   = (sampleGateway 0 [''J5'' \<mapsto> sampleJob ''J5'' StatusPending []] [''J5''], sampleConn)"
  "handleRequestJob (requestCallsOK\<lparr>rj_status_exec_ok := False\<rparr>)
     (sampleGateway 0 [''J5'' \<mapsto> sampleJob ''J5'' StatusPending []] [''J5'']) sampleConn
     (sampleEnvelope (Envelope_RequestJob \<lparr>agent_id = ''A1''\<rparr>)) \<lparr>agent_id = ''A1''\<rparr>
   = (sampleGateway 0 [''J5'' \<mapsto> sampleJob ''J5'' StatusPending []] [''J5''], sampleConn)"
  "handleRequestJob requestCallsOK
     ((sampleGateway 0 [''J5'' \<mapsto> sampleJob ''J5'' StatusPending []] [''J5''])
        \<lparr>ossProvider := sampleProvider\<lparr>GenerateUploadURL := (\<lambda>key. Inl ErrSigner)\<rparr>\<rparr>)
     sampleConn
     (sampleEnvelope (Envelope_RequestJob \<lparr>agent_id = ''A1''\<rparr>)) \<lparr>agent_id = ''A1''\<rparr>
   = ((sampleGateway 0 [''J5'' \<mapsto> sampleJob ''J5'' StatusPending []] [''J5''])
        \<lparr>ossProvider := sampleProvider\<lparr>GenerateUploadURL := (\<lambda>key. Inl ErrSigner)\<rparr>\<rparr>,
      sampleConn)"
  by (simp_all add: handleRequestJob_def Let_def dequeueLoop_first_pending request_defs GetAgent_def
        second_def intToString_1 HasPrefix_def store_defs IsValid_def CanTransitionTo_def
        Status_distinct revertToPending_def reEnqueue_def Enqueue_def)

text \<open>
  Claim C2 does not hold of the code. When the output write fails after the job was set to
  ASSIGNED, the rollback calls \<^verbatim>\<open>UpdateStatus(jobID, StatusPending)\<close>, which the store
  rejects (ASSIGNED \<rightarrow> PENDING is not an edge of the table) and whose error is dropped: no
  JobAssigned is sent, the assignment is cleared and the id is re-enqueued, but the job
  stays ASSIGNED. The same happens when marshaling fails.
\<close>

theorem dispatch_rollback_leaves_job_assigned:
  "handleRequestJob (requestCallsOK\<lparr>rj_output_ok := False\<rparr>)
     (sampleGateway 0 [''J5'' \<mapsto> sampleJob ''J5'' StatusPending []] [''J5'']) sampleConn
     (sampleEnvelope (Envelope_RequestJob \<lparr>agent_id = ''A1''\<rparr>)) \<lparr>agent_id = ''A1''\<rparr>
   = (sampleGateway 0 [''J5'' \<mapsto> sampleJob ''J5'' StatusAssigned []] [''J5''], sampleConn)
   \<and> map_option Status
       (jobStore
          (fst (handleRequestJob (requestCallsOK\<lparr>rj_marshal_ok := False\<rparr>)
                  (sampleGateway 0 [''J5'' \<mapsto> sampleJob ''J5'' StatusPending []] [''J5''])
                  sampleConn
                  (sampleEnvelope (Envelope_RequestJob \<lparr>agent_id = ''A1''\<rparr>))
                  \<lparr>agent_id = ''A1''\<rparr>)) ''J5'')
     = Some StatusAssigned
   \<and> StatusAssigned \<noteq> StatusPending"
  by (simp add: handleRequestJob_def Let_def dequeueLoop_first_pending request_defs GetAgent_def
        second_def intToString_1 HasPrefix_def store_defs IsValid_def CanTransitionTo_def
        Status_distinct revertToPending_def reEnqueue_def Enqueue_def)

end
